theory Spec2Isabelle
  imports Main
begin

section \<open>Interval algebra on minute ranges (availabilityService.ts)\<close>

text \<open>
  The slot helpers work on objects \<^verbatim>\<open>{start: number, end: number}\<close> holding minutes since
  local midnight. The fields are called \<open>start\<close> and \<open>end\<close> in the source; \<open>end\<close> is reserved
  here, so the record uses \<open>rstart\<close> and \<open>rend\<close>. Minute values are integers.
\<close>

record minute_range =
  rstart :: int
  rend :: int

text \<open>A point \<open>p\<close> lies in a range under the half-open reading \<open>[start, end)\<close>.\<close>

definition covers :: "minute_range \<Rightarrow> int \<Rightarrow> bool" where
  "covers r p \<longleftrightarrow> rstart r \<le> p \<and> p < rend r"

text \<open>The number of ranges of a list that contain the point \<open>p\<close>.\<close>

definition cover_count :: "minute_range list \<Rightarrow> int \<Rightarrow> nat" where
  "cover_count rs p = length (filter (\<lambda>r. covers r p) rs)"

text \<open>
  The body of the inner loop of \<^verbatim>\<open>calculateFreeIntervals\<close>: what one free range
  contributes to \<^verbatim>\<open>nextFreeIntervals\<close> when the busy block \<open>busy\<close> is subtracted.
\<close>

definition subtract_from_range :: "minute_range \<Rightarrow> minute_range \<Rightarrow> minute_range list" where
  "subtract_from_range busy free =
     (if rend free \<le> rstart free then []
      else
        let overlapStart = max (rstart free) (rstart busy);
            overlapEnd = min (rend free) (rend busy)
        in if overlapStart < overlapEnd
           then (if rstart free < rstart busy
                 then [\<lparr>rstart = rstart free, rend = rstart busy\<rparr>] else [])
              @ (if rend free > rend busy
                 then [\<lparr>rstart = rend busy, rend = rend free\<rparr>] else [])
           else [free])"

text \<open>The outer loop over the (sorted) busy blocks; a block with \<open>end \<le> start\<close> is skipped.\<close>

fun subtract_busy_blocks :: "minute_range list \<Rightarrow> minute_range list \<Rightarrow> minute_range list" where
  "subtract_busy_blocks [] freeIntervals = freeIntervals"
| "subtract_busy_blocks (busy # rest) freeIntervals =
     (if rend busy \<le> rstart busy then subtract_busy_blocks rest freeIntervals
      else subtract_busy_blocks rest (concat (map (subtract_from_range busy) freeIntervals)))"

text \<open>
  \<^verbatim>\<open>busyBlocks.sort((a, b) => a.start - b.start)\<close> is a stable sort by \<open>start\<close>, as
  \<^const>\<open>sort_key\<close> is.
\<close>

definition calculateFreeIntervals :: "minute_range list \<Rightarrow> minute_range list \<Rightarrow> minute_range list" where
  "calculateFreeIntervals workingIntervals busyBlocks =
     subtract_busy_blocks (sort_key rstart busyBlocks) workingIntervals"

text \<open>
  The \<^verbatim>\<open>while\<close> loop of \<^verbatim>\<open>generateSlots\<close> for one interval. The step is
  \<^verbatim>\<open>Math.max(slotStepMinutes, 1)\<close>, so the loop always advances.
\<close>

function slot_starts :: "int \<Rightarrow> int \<Rightarrow> int \<Rightarrow> int \<Rightarrow> int list" where
  "slot_starts currentSlotStart serviceDurationMinutes intervalEnd slotStepMinutes =
     (if currentSlotStart + serviceDurationMinutes \<le> intervalEnd
      then currentSlotStart #
           slot_starts (currentSlotStart + max slotStepMinutes 1) serviceDurationMinutes
             intervalEnd slotStepMinutes
      else [])"
  by pat_completeness auto
termination
  by (relation "measure (\<lambda>(c, d, e, s). nat (e - d - c + 1))") auto

declare slot_starts.simps [simp del]

definition generateSlots :: "minute_range list \<Rightarrow> int \<Rightarrow> int \<Rightarrow> int list" where
  "generateSlots freeIntervals serviceDurationMinutes slotStepMinutes =
     concat (map (\<lambda>interval.
        if rend interval \<le> rstart interval
           \<or> rend interval - rstart interval < serviceDurationMinutes
        then []
        else slot_starts (rstart interval) serviceDurationMinutes (rend interval) slotStepMinutes)
       freeIntervals)"


section \<open>Time of day (timeUtils.ts)\<close>

text \<open>
  Strings are lists of characters. \<^verbatim>\<open>timeStr.split(':')\<close> cuts the string at every colon
  and always returns at least one part.
\<close>

fun split_on :: "char \<Rightarrow> string \<Rightarrow> string list" where
  "split_on sep [] = [[]]"
| "split_on sep (c # cs) =
     (if c = sep then [] # split_on sep cs
      else (case split_on sep cs of
              part # parts \<Rightarrow> (c # part) # parts
            | [] \<Rightarrow> [[c]]))"

text \<open>
  \<^verbatim>\<open>parseInt(s, 10)\<close>: leading white space is skipped, one sign is read, then the longest
  run of decimal digits; whatever follows the digits is ignored. No digit at that place
  gives \<^verbatim>\<open>NaN\<close>, here \<open>None\<close>.
\<close>

definition is_js_whitespace :: "char \<Rightarrow> bool" where
  "is_js_whitespace c \<longleftrightarrow>
     (of_char c :: nat) \<in> {9, 10, 11, 12, 13, 32, 160}"

definition is_digit :: "char \<Rightarrow> bool" where
  "is_digit c \<longleftrightarrow> 48 \<le> (of_char c :: nat) \<and> (of_char c :: nat) \<le> 57"

definition digit_value :: "char \<Rightarrow> nat" where
  "digit_value c = of_char c - 48"

definition digits_value :: "string \<Rightarrow> nat" where
  "digits_value ds = foldl (\<lambda>acc c. 10 * acc + digit_value c) 0 ds"

definition parseInt :: "string \<Rightarrow> int option" where
  "parseInt s =
     (let t = dropWhile is_js_whitespace s;
          negative = (t \<noteq> [] \<and> hd t = CHR ''-'');
          u = (if t \<noteq> [] \<and> (hd t = CHR ''-'' \<or> hd t = CHR ''+'') then tl t else t);
          ds = takeWhile is_digit u
      in if ds = [] then None
         else Some (if negative then - int (digits_value ds) else int (digits_value ds)))"

text \<open>
  \<^verbatim>\<open>timeToMinutes\<close> on a string argument. The empty string is falsy and takes the first
  exit; \<open>-1\<close> is the invalid marker. Only \<^verbatim>\<open>parts[0]\<close> and \<^verbatim>\<open>parts[1]\<close> are read.
\<close>

definition timeToMinutes :: "string \<Rightarrow> int" where
  "timeToMinutes timeStr =
     (if timeStr = [] then - 1
      else
        let parts = split_on CHR '':'' timeStr
        in if length parts < 2 then - 1
           else (case (parseInt (parts ! 0), parseInt (parts ! 1)) of
                   (Some hours, Some minutes) \<Rightarrow>
                     if hours < 0 \<or> hours > 23 \<or> minutes < 0 \<or> minutes > 59 then - 1
                     else hours * 60 + minutes
                 | _ \<Rightarrow> - 1))"

text \<open>
  \<^verbatim>\<open>String(n)\<close> for a non-negative integer is its decimal numeral, and
  \<^verbatim>\<open>padStart(2, '0')\<close> fills a shorter string with zeros on the left.
\<close>

definition digit_char :: "nat \<Rightarrow> char" where
  "digit_char d = char_of (48 + d)"

fun String_of_nat :: "nat \<Rightarrow> string" where
  "String_of_nat n =
     (if n < 10 then [digit_char n] else String_of_nat (n div 10) @ [digit_char (n mod 10)])"

declare String_of_nat.simps [simp del]

definition padStart :: "nat \<Rightarrow> char \<Rightarrow> string \<Rightarrow> string" where
  "padStart targetLength fill s = replicate (targetLength - length s) fill @ s"

text \<open>
  \<^verbatim>\<open>formatTime\<close> on an integer argument: a negative value is replaced by 0, the value is
  wrapped modulo \<open>24 * 60\<close>, and hours and minutes are printed with two digits.
\<close>

definition formatTime :: "int \<Rightarrow> string" where
  "formatTime totalMinutes =
     (let t0 = (if totalMinutes < 0 then 0 else totalMinutes);
          t = t0 mod (24 * 60);
          hours = t div 60;
          mins = t mod 60;
          formattedHours = padStart 2 CHR ''0'' (String_of_nat (nat hours));
          formattedMinutes = padStart 2 CHR ''0'' (String_of_nat (nat mins))
      in formattedHours @ '':'' @ formattedMinutes)"

section \<open>Collaborators of the availability service\<close>

text \<open>
  The service awaits its collaborators: the database client, \<^verbatim>\<open>getGoogleCalendarClient\<close>
  and the free/busy query of the Google client. Each of them returns a value or throws.
  A thrown value is \<^verbatim>\<open>null\<close> or \<^verbatim>\<open>undefined\<close> (\<open>Nullish\<close>), or an \<^verbatim>\<open>Error\<close> object,
  kept here by its message. The difference matters in the handlers: reading
  \<^verbatim>\<open>error.message\<close> or \<^verbatim>\<open>error.stack\<close> of a nullish value throws a \<^verbatim>\<open>TypeError\<close>.
  A computation that may throw has a result in \<open>js_thrown + 'a\<close>.
\<close>

datatype js_thrown = Nullish | Thrown string

text \<open>
  A \<^verbatim>\<open>catch (error)\<close> block that logs a property of \<open>error\<close> and then returns \<open>fallback\<close>.
\<close>

definition catch_reading_property :: "js_thrown \<Rightarrow> 'a \<Rightarrow> js_thrown + 'a" where
  "catch_reading_property error fallback =
     (case error of
        Nullish \<Rightarrow> Inl (Thrown ''TypeError: Cannot read properties of undefined'')
      | Thrown message \<Rightarrow> Inr fallback)"

record StaffDetails =
  name :: string
  google_calendar_id :: "string option"
  is_google_connected :: bool
  is_active :: bool

text \<open>\<^verbatim>\<open>WorkingInterval\<close> has the fields \<^verbatim>\<open>start\<close> and \<^verbatim>\<open>end\<close>, both \<open>HH:MM\<close> strings.\<close>

record WorkingInterval =
  wi_start :: string
  wi_end :: string

text \<open>
  \<^verbatim>\<open>BusyBlock\<close> holds two UTC moments, \<^verbatim>\<open>start\<close> and \<^verbatim>\<open>end\<close>. An instant is an integer,
  the milliseconds since the epoch; \<^verbatim>\<open>isBefore\<close> and \<^verbatim>\<open>isAfter\<close> compare instants.
\<close>

record BusyBlock =
  block_start :: int
  block_end :: int

record AvailabilityResult =
  isAvailable :: bool
  reasons :: "string list"

text \<open>The rows the three queries read.\<close>

record staff_row =
  staff_id :: int
  staff_details :: StaffDetails

record working_hours_row =
  wh_staff_id :: int
  day_of_week :: int
  start_time :: "string option"
  end_time :: "string option"

record booking_row =
  booking_id :: int
  b_staff_id :: int
  status :: string
  booking_start_time :: int
  booking_end_time :: int

text \<open>
  The world a call runs in: whether \<^verbatim>\<open>process.env.BUSINESS_TIMEZONE\<close> is set and known to
  moment, the three tables, for each staff id the value a query throws (if it throws),
  what \<^verbatim>\<open>getGoogleCalendarClient(staffId)\<close> does (it throws, returns \<^verbatim>\<open>null\<close>, or
  returns a client whose \<^verbatim>\<open>freebusy.query\<close> throws or answers with the busy lists of
  its calendars), and the two moment-timezone computations the service uses: the ISO
  weekday of an instant in a zone and the start of its local day.
\<close>

record world =
  BUSINESS_TIMEZONE_valid :: bool
  staff_table :: "staff_row list"
  staff_query_error :: "int \<Rightarrow> js_thrown option"
  working_hours_table :: "working_hours_row list"
  working_hours_query_error :: "int \<Rightarrow> js_thrown option"
  bookings_table :: "booking_row list"
  bookings_query_error :: "int \<Rightarrow> js_thrown option"
  getGoogleCalendarClient ::
    "int \<Rightarrow> js_thrown + (js_thrown + (string \<times> BusyBlock list) list) option"
  isoWeekday :: "string \<Rightarrow> int \<Rightarrow> int"
  startOfDay :: "string \<Rightarrow> int \<Rightarrow> int"

text \<open>
  \<^verbatim>\<open>a.diff(b, 'minutes')\<close> of moment: the difference of the instants in minutes, truncated
  towards zero.
\<close>

definition diff_minutes :: "int \<Rightarrow> int \<Rightarrow> int" where
  "diff_minutes a b =
     (if a - b < 0 then - ((b - a) div 60000) else (a - b) div 60000)"

section \<open>The helpers of availabilityService.ts\<close>

definition getStaffDetails :: "world \<Rightarrow> int \<Rightarrow> js_thrown + StaffDetails option" where
  "getStaffDetails w staffId =
     (case staff_query_error w staffId of
        Some error \<Rightarrow> catch_reading_property error None
      | None \<Rightarrow>
          (case filter (\<lambda>row. staff_id row = staffId) (staff_table w) of
             [] \<Rightarrow> Inr None
           | row # _ \<Rightarrow> Inr (Some (staff_details row))))"

text \<open>A column that is \<^verbatim>\<open>NULL\<close> or the empty string is falsy and gives \<^verbatim>\<open>null\<close>.\<close>

definition getWorkingInterval :: "world \<Rightarrow> int \<Rightarrow> int \<Rightarrow> js_thrown + WorkingInterval option" where
  "getWorkingInterval w staffId dayOfWeek =
     (case working_hours_query_error w staffId of
        Some error \<Rightarrow> catch_reading_property error None
      | None \<Rightarrow>
          (case filter (\<lambda>row. wh_staff_id row = staffId \<and> day_of_week row = dayOfWeek)
                  (working_hours_table w) of
             [] \<Rightarrow> Inr None
           | row # _ \<Rightarrow>
               (case (start_time row, end_time row) of
                  (Some s, Some e) \<Rightarrow>
                    if s = [] \<or> e = [] then Inr None
                    else Inr (Some \<lparr>wi_start = s, wi_end = e\<rparr>)
                | _ \<Rightarrow> Inr None)))"

text \<open>
  The \<^verbatim>\<open>&&\<close> of two \<^verbatim>\<open>tstzrange(_, _, '[)')\<close> values: both ranges are non-empty and share
  an instant. PostgreSQL refuses to build a range whose lower bound is above its upper
  bound, and the query then fails. For the requested range the handler of
  \<^verbatim>\<open>getDbBusyBlocks\<close> then returns the empty list, which is also what this predicate
  selects. For a stored row the failure is written out below in
  \<open>bookings_query_raises\<close>.
\<close>

definition tstzrange_overlap :: "int \<Rightarrow> int \<Rightarrow> int \<Rightarrow> int \<Rightarrow> bool" where
  "tstzrange_overlap a b c d \<longleftrightarrow> a < b \<and> c < d \<and> a < d \<and> c < b"

definition bookings_query :: "world \<Rightarrow> int \<Rightarrow> int \<Rightarrow> int \<Rightarrow> int option \<Rightarrow> booking_row list" where
  "bookings_query w staffId startTimeUTC endTimeUTC bookingIdToExclude =
     filter (\<lambda>row.
        b_staff_id row = staffId
        \<and> status row = ''confirmed''
        \<and> tstzrange_overlap startTimeUTC endTimeUTC (booking_start_time row) (booking_end_time row)
        \<and> (case bookingIdToExclude of None \<Rightarrow> True | Some excluded \<Rightarrow> booking_id row \<noteq> excluded))
       (bookings_table w)"

text \<open>
  The tests of the \<^verbatim>\<open>WHERE\<close> clause are made in the order written, so the range of a
  stored row is built when the row is one of the staff member with status \<open>confirmed\<close>.
  Such a row with its start above its end makes \<^verbatim>\<open>tstzrange\<close> raise, and the whole query
  fails.
\<close>

definition bookings_query_raises :: "world \<Rightarrow> int \<Rightarrow> bool" where
  "bookings_query_raises w staffId \<longleftrightarrow>
     list_ex (\<lambda>row. b_staff_id row = staffId \<and> status row = ''confirmed''
                    \<and> booking_end_time row < booking_start_time row)
       (bookings_table w)"

text \<open>
  \<^verbatim>\<open>getDbBusyBlocks\<close>: whatever the query throws, be it a failure of the client or the
  error raised for a stored range, is caught, logged and turned into the empty list.
\<close>

definition getDbBusyBlocks ::
  "world \<Rightarrow> int \<Rightarrow> int \<Rightarrow> int \<Rightarrow> int option \<Rightarrow> js_thrown + BusyBlock list" where
  "getDbBusyBlocks w staffId startTimeUTC endTimeUTC bookingIdToExclude =
     (case bookings_query_error w staffId of
        Some error \<Rightarrow> catch_reading_property error []
      | None \<Rightarrow>
          if bookings_query_raises w staffId
          then catch_reading_property
                 (Thrown ''range lower bound must be less than or equal to range upper bound'')
                 []
          else
            Inr (map (\<lambda>row. \<lparr>block_start = booking_start_time row,
                              block_end = booking_end_time row\<rparr>)
                   (bookings_query w staffId startTimeUTC endTimeUTC bookingIdToExclude)))"

text \<open>
  \<^verbatim>\<open>getGcalBusyBlocks\<close> returns a list, or \<^verbatim>\<open>null\<close> (here \<open>None\<close>) when the calendar could
  not be checked. The call of \<^verbatim>\<open>getGoogleCalendarClient\<close> stands before the \<^verbatim>\<open>try\<close>, so
  what it throws leaves the function. An empty calendar id is falsy and replaced by
  \<^verbatim>\<open>'primary'\<close>; a calendar missing from the answer has no busy time.
\<close>

definition getGcalBusyBlocks ::
  "world \<Rightarrow> int \<Rightarrow> int \<Rightarrow> int \<Rightarrow> StaffDetails option \<Rightarrow> js_thrown + BusyBlock list option" where
  "getGcalBusyBlocks w staffId startTimeUTC endTimeUTC staffDetails =
     (case staffDetails of
        None \<Rightarrow> Inr (Some [])
      | Some details \<Rightarrow>
          if \<not> is_google_connected details then Inr (Some [])
          else
            (case getGoogleCalendarClient w staffId of
               Inl error \<Rightarrow> Inl error
             | Inr None \<Rightarrow> Inr None
             | Inr (Some freebusy_query) \<Rightarrow>
                 (case freebusy_query of
                    Inl gcalError \<Rightarrow> catch_reading_property gcalError None
                  | Inr calendars \<Rightarrow>
                      let calendarId =
                            (case google_calendar_id details of
                               None \<Rightarrow> ''primary''
                             | Some c \<Rightarrow> if c = [] then ''primary'' else c)
                      in Inr (Some (case map_of calendars calendarId of
                                      None \<Rightarrow> []
                                    | Some busy \<Rightarrow> busy)))))"


section \<open>checkAvailability\<close>

text \<open>
  The options object without \<^verbatim>\<open>dbClient\<close>, which is the world above. The two UTC strings
  are the instants they denote.
\<close>

record availability_options =
  staffId :: int
  newBookingStartTimeUTC :: int
  newBookingEndTimeUTC :: int
  bookingTimezone :: string
  staffDetails :: "StaffDetails option"
  bookingIdToExclude :: "int option"

text \<open>
  The body of \<^verbatim>\<open>checkAvailability\<close> reads \<^verbatim>\<open>newEndTimeLocal\<close> (in
  \<^verbatim>\<open>newEndTimeLocal.diff(localDayStart, 'minutes')\<close>), and neither the function nor the
  module declares that name: the function declares \<^verbatim>\<open>newStartTime\<close>, \<^verbatim>\<open>newEndTime\<close>,
  \<^verbatim>\<open>newStartTimeLocal\<close>, \<^verbatim>\<open>localDayOfWeek\<close> and \<^verbatim>\<open>localDayStart\<close>. Reading an undeclared
  name throws a \<^verbatim>\<open>ReferenceError\<close>. The binding of the name is kept explicit here; \<open>None\<close>
  is the missing declaration.
\<close>

definition newEndTimeLocal :: "int option" where
  "newEndTimeLocal = None"

text \<open>
  The \<^verbatim>\<open>else\<close> branch that compares the booking with the working hours; it yields the
  reasons to push.
\<close>

definition working_hours_check ::
  "WorkingInterval \<Rightarrow> string \<Rightarrow> int \<Rightarrow> int \<Rightarrow> js_thrown + string list" where
  "working_hours_check workingInterval timezone newStartTimeLocal localDayStart =
     (let workStartMins = timeToMinutes (wi_start workingInterval);
          workEndMins = timeToMinutes (wi_end workingInterval);
          bookingStartMins = diff_minutes newStartTimeLocal localDayStart
      in case newEndTimeLocal of
           None \<Rightarrow> Inl (Thrown ''ReferenceError: newEndTimeLocal is not defined'')
         | Some endLocal \<Rightarrow>
             let bookingEndMins = diff_minutes endLocal localDayStart
             in Inr (if bookingStartMins < workStartMins \<or> bookingEndMins > workEndMins
                     then [''Time slot falls outside staff working hours ('' @ wi_start workingInterval
                             @ '' - '' @ wi_end workingInterval @ '' '' @ timezone @ '').'']
                     else []))"

text \<open>
  The two conflict stages, from the call of \<^verbatim>\<open>getDbBusyBlocks\<close> to the final
  \<^verbatim>\<open>return\<close>. \<open>reasons0\<close> is the array \<^verbatim>\<open>reasons\<close> as the stages find it.
\<close>

definition booking_conflict_reason :: string where
  "booking_conflict_reason = ''Conflicts with another booking in the schedule.''"

definition unverifiable_reason :: string where
  "unverifiable_reason = ''Could not verify Google Calendar availability.''"

definition calendar_conflict_reason :: string where
  "calendar_conflict_reason =
     ''Conflicts with an event in the staff'' @ [CHR 0x27] @ ''s Google Calendar.''"

definition internal_error_reason :: string where
  "internal_error_reason = ''An internal error occurred while checking availability.''"

definition conflicts_with :: "int \<Rightarrow> int \<Rightarrow> BusyBlock \<Rightarrow> bool" where
  "conflicts_with newStartTime newEndTime block \<longleftrightarrow>
     block_start block < newEndTime \<and> block_end block > newStartTime"

definition conflict_stages ::
  "world \<Rightarrow> availability_options \<Rightarrow> StaffDetails \<Rightarrow> string list
     \<Rightarrow> js_thrown + AvailabilityResult" where
  "conflict_stages w options details reasons0 =
     (let newStartTime = newBookingStartTimeUTC options;
          newEndTime = newBookingEndTimeUTC options
      in case getDbBusyBlocks w (staffId options) newStartTime newEndTime
                (bookingIdToExclude options) of
           Inl error \<Rightarrow> Inl error
         | Inr dbBusyBlocks \<Rightarrow>
             let dbConflict = list_ex (conflicts_with newStartTime newEndTime) dbBusyBlocks;
                 reasons1 = (if dbConflict then reasons0 @ [booking_conflict_reason]
                             else reasons0)
             in if reasons1 \<noteq> [] then Inr \<lparr>isAvailable = False, reasons = reasons1\<rparr>
                else
                  (case getGcalBusyBlocks w (staffId options) newStartTime newEndTime
                          (Some details) of
                     Inl error \<Rightarrow> Inl error
                   | Inr gcalBusyBlocks \<Rightarrow>
                       let reasons2 =
                             (case gcalBusyBlocks of
                                None \<Rightarrow> reasons1 @ [unverifiable_reason]
                              | Some blocks \<Rightarrow>
                                  if list_ex (conflicts_with newStartTime newEndTime) blocks
                                  then reasons1 @ [calendar_conflict_reason]
                                  else reasons1)
                       in Inr \<lparr>isAvailable = (reasons2 = []), reasons = reasons2\<rparr>))"

text \<open>The \<^verbatim>\<open>try\<close> block of \<^verbatim>\<open>checkAvailability\<close>.\<close>

definition checkAvailability_try ::
  "world \<Rightarrow> availability_options \<Rightarrow> js_thrown + AvailabilityResult" where
  "checkAvailability_try w options =
     (case (case staffDetails options of
              Some provided \<Rightarrow> Inr (Some provided)
            | None \<Rightarrow> getStaffDetails w (staffId options)) of
        Inl error \<Rightarrow> Inl error
      | Inr None \<Rightarrow>
          Inr \<lparr>isAvailable = False, reasons = [''Staff member not found or inactive.'']\<rparr>
      | Inr (Some details) \<Rightarrow>
          if \<not> is_active details
          then Inr \<lparr>isAvailable = False, reasons = [''Staff member not found or inactive.'']\<rparr>
          else
            let newStartTimeLocal = newBookingStartTimeUTC options;
                localDayOfWeek = isoWeekday w (bookingTimezone options) newStartTimeLocal;
                localDayStart = startOfDay w (bookingTimezone options) newStartTimeLocal
            in case getWorkingInterval w (staffId options) localDayOfWeek of
                 Inl error \<Rightarrow> Inl error
               | Inr None \<Rightarrow>
                   Inr \<lparr>isAvailable = False,
                        reasons = [''Staff member does not work on the selected day.'']\<rparr>
               | Inr (Some workingInterval) \<Rightarrow>
                   (case working_hours_check workingInterval (bookingTimezone options)
                           newStartTimeLocal localDayStart of
                      Inl error \<Rightarrow> Inl error
                    | Inr reasons0 \<Rightarrow>
                        if reasons0 \<noteq> [] then Inr \<lparr>isAvailable = False, reasons = reasons0\<rparr>
                        else conflict_stages w options details reasons0))"

text \<open>
  The whole function: the time-zone guard before the \<^verbatim>\<open>try\<close>, and the \<^verbatim>\<open>catch\<close> block,
  which logs \<^verbatim>\<open>error.stack\<close> and returns the internal-error result.
\<close>

definition checkAvailability ::
  "world \<Rightarrow> availability_options \<Rightarrow> js_thrown + AvailabilityResult" where
  "checkAvailability w options =
     (if \<not> BUSINESS_TIMEZONE_valid w
      then Inr \<lparr>isAvailable = False, reasons = [''Server configuration error [Timezone].'']\<rparr>
      else
        (case checkAvailability_try w options of
           Inl error \<Rightarrow>
             catch_reading_property error
               \<lparr>isAvailable = False, reasons = [internal_error_reason]\<rparr>
         | Inr result \<Rightarrow> Inr result))"

text \<open>
  The options the reschedule route passes (\<^verbatim>\<open>PUT .../reschedule\<close>): the staff of the
  booking, the new interval, the business time zone, staff details taken from the locked
  booking row with \<^verbatim>\<open>is_active: true\<close>, and the id of the booking itself to exclude.
\<close>

definition reschedule_options ::
  "int \<Rightarrow> int \<Rightarrow> int \<Rightarrow> int \<Rightarrow> string \<Rightarrow> string \<Rightarrow> string option \<Rightarrow> bool
     \<Rightarrow> availability_options" where
  "reschedule_options bookingId staff newStartUTC newEndUTC businessTimezone
       staff_name calendar_id connected =
     \<lparr>staffId = staff,
      newBookingStartTimeUTC = newStartUTC,
      newBookingEndTimeUTC = newEndUTC,
      bookingTimezone = businessTimezone,
      staffDetails = Some \<lparr>name = staff_name, google_calendar_id = calendar_id,
                            is_google_connected = connected, is_active = True\<rparr>,
      bookingIdToExclude = Some bookingId\<rparr>"

text \<open>
  A concrete world for the examples: staff 1 is active and linked to a calendar, works
  09:00 to 17:00 on weekday 4, and has no bookings; every instant is on weekday 4 of a
  day that starts at instant 0 (the zone is UTC and the day is 1 January 1970, a
  Thursday). The request is 10:00 to 11:00 of that day.
\<close>

definition example_staff :: StaffDetails where
  "example_staff = \<lparr>name = ''Test Staff'', google_calendar_id = Some ''cal'',
                    is_google_connected = True, is_active = True\<rparr>"

definition example_world :: world where
  "example_world =
     \<lparr>BUSINESS_TIMEZONE_valid = True,
      staff_table = [\<lparr>staff_id = 1, staff_details = example_staff\<rparr>],
      staff_query_error = (\<lambda>_. None),
      working_hours_table =
        [\<lparr>wh_staff_id = 1, day_of_week = 4, start_time = Some ''09:00'',
          end_time = Some ''17:00''\<rparr>],
      working_hours_query_error = (\<lambda>_. None),
      bookings_table = [],
      bookings_query_error = (\<lambda>_. None),
      getGoogleCalendarClient = (\<lambda>_. Inr (Some (Inr [(''cal'', [])]))),
      isoWeekday = (\<lambda>_ _. 4),
      startOfDay = (\<lambda>_ _. 0)\<rparr>"

definition example_options :: availability_options where
  "example_options =
     \<lparr>staffId = 1,
      newBookingStartTimeUTC = 36000000,
      newBookingEndTimeUTC = 39600000,
      bookingTimezone = ''UTC'',
      staffDetails = None,
      bookingIdToExclude = None\<rparr>"


definition calendar_down_world :: world where
  "calendar_down_world =
     example_world\<lparr>getGoogleCalendarClient :=
        (\<lambda>_. Inr (Some (Inl (Thrown ''GCal API failed''))))\<rparr>"

definition staff_query_down_world :: world where
  "staff_query_down_world =
     example_world\<lparr>staff_query_error := (\<lambda>_. Some (Thrown ''Connection terminated''))\<rparr>"

definition bookings_query_down_world :: world where
  "bookings_query_down_world =
     example_world\<lparr>bookings_query_error := (\<lambda>_. Some (Thrown ''Connection terminated''))\<rparr>"

text \<open>Booking 7 of staff 1, from 10:00 to 11:00, being moved to 10:30.\<close>

definition rescheduling_world :: world where
  "rescheduling_world =
     example_world\<lparr>bookings_table :=
        [\<lparr>booking_id = 7, b_staff_id = 1, status = ''confirmed'',
          booking_start_time = 36000000, booking_end_time = 39600000\<rparr>]\<rparr>"

definition rescheduling_options :: availability_options where
  "rescheduling_options =
     reschedule_options 7 1 37800000 41400000 ''UTC'' ''Test Staff'' (Some ''cal'') True"

section \<open>Slot listing (GET /api/slots)\<close>

text \<open>
  A row of the eligible-staff query, a slot candidate of \<^verbatim>\<open>allSlots\<close>, and what the handler
  has computed for the requested day before it turns to the staff members.
\<close>

record eligible_staff_row =
  es_staff_id :: int
  es_name :: string

record slot_candidate =
  slot_time :: string
  slot_staffId :: int
  slot_staffName :: string

record slot_day =
  dayOfWeek :: int
  dayStartLocal :: int
  dayStartUTC :: int
  dayEndUTC :: int
  serviceDuration :: int

text \<open>
  The function mapped over the busy blocks: minutes from the local day start, clipped to
  \<open>[0, 1440]\<close>; an empty result is \<^verbatim>\<open>null\<close> and filtered out.
\<close>

definition clip_to_day :: "int \<Rightarrow> BusyBlock \<Rightarrow> minute_range option" where
  "clip_to_day dayStart block =
     (let blockStartMinutes = diff_minutes (block_start block) dayStart;
          blockEndMinutes = diff_minutes (block_end block) dayStart;
          overlapStart = max blockStartMinutes 0;
          overlapEnd = min blockEndMinutes 1440
      in if overlapStart < overlapEnd
         then Some \<lparr>rstart = overlapStart, rend = overlapEnd\<rparr> else None)"

text \<open>The \<^verbatim>\<open>try\<close> block of the per-staff function.\<close>

definition staff_processing ::
  "world \<Rightarrow> slot_day \<Rightarrow> eligible_staff_row \<Rightarrow> js_thrown + slot_candidate list" where
  "staff_processing w day staff =
     (case getStaffDetails w (es_staff_id staff) of
        Inl error \<Rightarrow> Inl error
      | Inr None \<Rightarrow> Inr []
      | Inr (Some details) \<Rightarrow>
          if \<not> is_active details then Inr []
          else
            (case getWorkingInterval w (es_staff_id staff) (dayOfWeek day) of
               Inl error \<Rightarrow> Inl error
             | Inr None \<Rightarrow> Inr []
             | Inr (Some workingInterval) \<Rightarrow>
                 let workingStartMins = timeToMinutes (wi_start workingInterval);
                     workingEndMins = timeToMinutes (wi_end workingInterval)
                 in if workingStartMins < 0 \<or> workingEndMins \<le> workingStartMins then Inr []
                    else
                      (case getDbBusyBlocks w (es_staff_id staff) (dayStartUTC day)
                              (dayEndUTC day) None of
                         Inl error \<Rightarrow> Inl error
                       | Inr dbBusyBlocksUTC \<Rightarrow>
                           (case getGcalBusyBlocks w (es_staff_id staff) (dayStartUTC day)
                                   (dayEndUTC day) (Some details) of
                              Inl error \<Rightarrow> Inl error
                            | Inr gcalBusyBlocksUTC \<Rightarrow>
                                let dbBusyMinutes =
                                      List.map_filter (clip_to_day (dayStartLocal day))
                                        dbBusyBlocksUTC;
                                    gcalBusyMinutes =
                                      (case gcalBusyBlocksUTC of
                                         None \<Rightarrow> []
                                       | Some blocks \<Rightarrow>
                                           List.map_filter (clip_to_day (dayStartLocal day))
                                             blocks);
                                    allBusyMinutes = dbBusyMinutes @ gcalBusyMinutes;
                                    freeIntervals =
                                      calculateFreeIntervals
                                        [\<lparr>rstart = workingStartMins, rend = workingEndMins\<rparr>]
                                        allBusyMinutes;
                                    availableMinutes =
                                      generateSlots freeIntervals (serviceDuration day) 15
                                in Inr (map (\<lambda>startMinute.
                                          \<lparr>slot_time = formatTime startMinute,
                                           slot_staffId = es_staff_id staff,
                                           slot_staffName = es_name staff\<rparr>)
                                        availableMinutes)))))"

text \<open>
  The per-staff function with its \<^verbatim>\<open>catch\<close>, which logs the error itself and returns the
  empty array; and \<^verbatim>\<open>allSlots\<close>, which collects the results in the order of the staff.
\<close>

definition staff_slots :: "world \<Rightarrow> slot_day \<Rightarrow> eligible_staff_row \<Rightarrow> slot_candidate list" where
  "staff_slots w day staff =
     (case staff_processing w day staff of Inl error \<Rightarrow> [] | Inr slots \<Rightarrow> slots)"

definition allSlots :: "world \<Rightarrow> slot_day \<Rightarrow> eligible_staff_row list \<Rightarrow> slot_candidate list" where
  "allSlots w day eligibleStaff = concat (map (staff_slots w day) eligibleStaff)"

text \<open>
  The world in which the calendar of staff member \<open>sid\<close> answers with no busy time, all
  else unchanged.
\<close>

definition with_empty_calendar :: "world \<Rightarrow> int \<Rightarrow> world" where
  "with_empty_calendar w sid =
     w\<lparr>getGoogleCalendarClient := (getGoogleCalendarClient w)(sid := Inr (Some (Inr [])))\<rparr>"

text \<open>
  An example: the day of the example world, a service of 30 minutes, staff 1 working
  09:00 to 10:00 with a linked calendar for which no client can be obtained.
\<close>

definition example_day :: slot_day where
  "example_day = \<lparr>dayOfWeek = 4, dayStartLocal = 0, dayStartUTC = 0, dayEndUTC = 86399999,
                  serviceDuration = 30\<rparr>"

definition no_client_world :: world where
  "no_client_world =
     example_world\<lparr>
       working_hours_table :=
         [\<lparr>wh_staff_id = 1, day_of_week = 4, start_time = Some ''09:00'',
           end_time = Some ''10:00''\<rparr>],
       getGoogleCalendarClient := (\<lambda>_. Inr None)\<rparr>"

definition example_staff_row :: eligible_staff_row where
  "example_staff_row = \<lparr>es_staff_id = 1, es_name = ''Test Staff''\<rparr>"

section \<open>Creating a booking (POST /api/bookings)\<close>

text \<open>
  The handler is modelled by the steps it takes against the database and the calendar, in
  the order it takes them, and by the kind of its response. A step is listed when the
  call is made, whether it then succeeds or throws. \<open>CommitOfAbortedTransaction\<close> is a
  \<^verbatim>\<open>COMMIT\<close> sent after a statement of the transaction has failed: PostgreSQL has aborted
  the transaction then, answers the \<^verbatim>\<open>COMMIT\<close> without an error, and rolls back.
\<close>

datatype booking_step =
    Connect | Begin | LockServiceRow | LockStaffRow | FindOrCreateCustomer
  | CheckAvailability | InsertBooking string | GetGoogleCalendarClient | EventsInsert
  | UpdateGoogleEventId | Commit | CommitOfAbortedTransaction | Rollback | Release

text \<open>
  \<open>Created\<close> is the 201 response with the new booking id, \<open>SlotUnavailable\<close> the 409
  response with the reasons, \<open>BadRequest\<close> a 400 response of the input validation,
  \<open>ErrorResponse\<close> a response built from a caught error (its status and message are not
  modelled further), and \<open>HandlerRejected\<close> the case that the \<^verbatim>\<open>catch\<close> block itself throws.
\<close>

datatype booking_response =
    Created int | SlotUnavailable "string list" | BadRequest | ErrorResponse | HandlerRejected

text \<open>
  A request and what its own statements meet, beside the world of the availability
  service: the validations of the body, the staff id and the UTC interval computed from
  date, time and duration, the value of \<^verbatim>\<open>BUSINESS_TIMEZONE\<close>, and the outcome of each
  statement the handler sends itself. \<open>service_row\<close> tells whether the locking service
  query found an active service; an error field is \<open>None\<close> when the call succeeds. The
  staff details, the availability and the calendar client are not fields: the handler
  calls \<^const>\<open>getStaffDetails\<close>, \<^const>\<open>checkAvailability\<close> and
  \<^verbatim>\<open>getGoogleCalendarClient\<close> of the world.
\<close>

record booking_run =
  body_error :: "js_thrown option"
  fields_present :: bool
  client_timezone_valid :: bool
  ids_numeric :: bool
  parsedStaffId :: int
  businessTimezone :: string
  connect_error :: "js_thrown option"
  begin_error :: "js_thrown option"
  service_row :: "js_thrown + bool"
  customer :: "js_thrown + int"
  booking_time_valid :: bool
  bookingStartTimeUTC :: int
  bookingEndTimeUTC :: int
  rollback_error :: "js_thrown option"
  insert_booking :: "js_thrown + int"
  events_insert_error :: "js_thrown option"
  update_event_id_error :: "js_thrown option"
  commit_error :: "js_thrown option"

text \<open>
  The outer \<^verbatim>\<open>catch\<close> and \<^verbatim>\<open>finally\<close>: \<^verbatim>\<open>error.stack\<close> is logged, then, if a client was
  acquired, \<^verbatim>\<open>ROLLBACK\<close> is sent (a failure of it is caught), an error response is built,
  and the client is released.
\<close>

definition error_exit ::
  "bool \<Rightarrow> booking_step list \<Rightarrow> js_thrown \<Rightarrow> booking_step list \<times> booking_response" where
  "error_exit acquired steps error =
     (case error of
        Nullish \<Rightarrow> (steps @ (if acquired then [Release] else []), HandlerRejected)
      | Thrown message \<Rightarrow>
          (steps @ (if acquired then [Rollback, Release] else []), ErrorResponse))"

text \<open>
  Steps 8 and 9: \<^verbatim>\<open>COMMIT\<close>, then the success response. \<open>aborted\<close> tells whether a
  statement of the transaction has failed before; the handler does not look at it and
  answers 201 in both cases.
\<close>

definition commit_and_respond ::
  "booking_run \<Rightarrow> bool \<Rightarrow> booking_step list \<Rightarrow> int
     \<Rightarrow> booking_step list \<times> booking_response" where
  "commit_and_respond run aborted steps newBookingId =
     (case commit_error run of
        Some error \<Rightarrow> error_exit True (steps @ [Commit]) error
      | None \<Rightarrow>
          (steps @ [if aborted then CommitOfAbortedTransaction else Commit, Release],
           Created newBookingId))"

text \<open>
  Step 7, ``Add to Google Calendar (Best Effort)'', which stands between the insert and
  the commit. The call of \<^verbatim>\<open>getGoogleCalendarClient\<close> is outside the inner \<^verbatim>\<open>try\<close>; the
  inner \<^verbatim>\<open>catch\<close> logs \<^verbatim>\<open>gcalInsertError.message\<close> and goes on, also when it was the
  \<^verbatim>\<open>UPDATE\<close> of the event id that failed.
\<close>

definition calendar_event_step ::
  "world \<Rightarrow> booking_run \<Rightarrow> StaffDetails \<Rightarrow> booking_step list \<Rightarrow> int
     \<Rightarrow> booking_step list \<times> booking_response" where
  "calendar_event_step w run details steps newBookingId =
     (if is_google_connected details
         \<and> (case google_calendar_id details of None \<Rightarrow> False | Some c \<Rightarrow> c \<noteq> [])
      then
        (case getGoogleCalendarClient w (parsedStaffId run) of
           Inl error \<Rightarrow> error_exit True (steps @ [GetGoogleCalendarClient]) error
         | Inr None \<Rightarrow>
             commit_and_respond run False (steps @ [GetGoogleCalendarClient]) newBookingId
         | Inr (Some googleClientForEvent) \<Rightarrow>
             (case events_insert_error run of
                Some Nullish \<Rightarrow>
                  error_exit True (steps @ [GetGoogleCalendarClient, EventsInsert])
                    (Thrown ''TypeError: Cannot read properties of undefined'')
              | Some (Thrown message) \<Rightarrow>
                  commit_and_respond run False
                    (steps @ [GetGoogleCalendarClient, EventsInsert]) newBookingId
              | None \<Rightarrow>
                  (case update_event_id_error run of
                     Some Nullish \<Rightarrow>
                       error_exit True
                         (steps @ [GetGoogleCalendarClient, EventsInsert, UpdateGoogleEventId])
                         (Thrown ''TypeError: Cannot read properties of undefined'')
                   | Some (Thrown message) \<Rightarrow>
                       commit_and_respond run True
                         (steps @ [GetGoogleCalendarClient, EventsInsert, UpdateGoogleEventId])
                         newBookingId
                   | None \<Rightarrow>
                       commit_and_respond run False
                         (steps @ [GetGoogleCalendarClient, EventsInsert, UpdateGoogleEventId])
                         newBookingId)))
      else commit_and_respond run False steps newBookingId)"

text \<open>
  Steps 4 to 6: the call of \<^const>\<open>checkAvailability\<close> with the locked staff details and no
  booking to exclude, the decision, and the insert.
\<close>

definition booking_options :: "booking_run \<Rightarrow> StaffDetails \<Rightarrow> availability_options" where
  "booking_options run details =
     \<lparr>staffId = parsedStaffId run,
      newBookingStartTimeUTC = bookingStartTimeUTC run,
      newBookingEndTimeUTC = bookingEndTimeUTC run,
      bookingTimezone = businessTimezone run,
      staffDetails = Some details,
      bookingIdToExclude = None\<rparr>"

definition check_and_insert ::
  "world \<Rightarrow> booking_run \<Rightarrow> StaffDetails \<Rightarrow> booking_step list
     \<Rightarrow> booking_step list \<times> booking_response" where
  "check_and_insert w run details steps =
     (case checkAvailability w (booking_options run details) of
        Inl error \<Rightarrow> error_exit True (steps @ [CheckAvailability]) error
      | Inr availabilityResult \<Rightarrow>
          if \<not> isAvailable availabilityResult
          then (case rollback_error run of
                  Some error \<Rightarrow> error_exit True (steps @ [CheckAvailability, Rollback]) error
                | None \<Rightarrow>
                    (steps @ [CheckAvailability, Rollback, Release],
                     SlotUnavailable (reasons availabilityResult)))
          else
            (case insert_booking run of
               Inl error \<Rightarrow>
                 error_exit True (steps @ [CheckAvailability, InsertBooking ''confirmed'']) error
             | Inr newBookingId \<Rightarrow>
                 calendar_event_step w run details
                   (steps @ [CheckAvailability, InsertBooking ''confirmed'']) newBookingId))"

definition POST :: "world \<Rightarrow> booking_run \<Rightarrow> booking_step list \<times> booking_response" where
  "POST w run =
     (case body_error run of
        Some error \<Rightarrow> error_exit False [] error
      | None \<Rightarrow>
     if \<not> fields_present run then ([], BadRequest)
     else if \<not> client_timezone_valid run then ([], BadRequest)
     else if \<not> ids_numeric run then ([], BadRequest)
     else if \<not> BUSINESS_TIMEZONE_valid w then ([], ErrorResponse)
     else
       (case connect_error run of
          Some error \<Rightarrow> error_exit False [Connect] error
        | None \<Rightarrow>
       (case begin_error run of
          Some error \<Rightarrow> error_exit True [Connect, Begin] error
        | None \<Rightarrow>
       (case service_row run of
          Inl error \<Rightarrow> error_exit True [Connect, Begin, LockServiceRow] error
        | Inr False \<Rightarrow>
            error_exit True [Connect, Begin, LockServiceRow]
              (Thrown ''Active service not found or is inactive.'')
        | Inr True \<Rightarrow>
       (case getStaffDetails w (parsedStaffId run) of
          Inl error \<Rightarrow> error_exit True [Connect, Begin, LockServiceRow, LockStaffRow] error
        | Inr None \<Rightarrow>
            error_exit True [Connect, Begin, LockServiceRow, LockStaffRow]
              (Thrown ''Active staff member not found or is inactive.'')
        | Inr (Some details) \<Rightarrow>
            if \<not> is_active details
            then error_exit True [Connect, Begin, LockServiceRow, LockStaffRow]
                   (Thrown ''Active staff member not found or is inactive.'')
            else
              (case customer run of
                 Inl error \<Rightarrow>
                   error_exit True
                     [Connect, Begin, LockServiceRow, LockStaffRow, FindOrCreateCustomer] error
               | Inr customerId \<Rightarrow>
                   if \<not> booking_time_valid run
                   then error_exit True
                          [Connect, Begin, LockServiceRow, LockStaffRow, FindOrCreateCustomer]
                          (Thrown ''Invalid date or time format provided for booking.'')
                   else check_and_insert w run details
                          [Connect, Begin, LockServiceRow, LockStaffRow,
                           FindOrCreateCustomer]))))))"

text \<open>
  A request for the slot of the example: staff 1 of the example world, 10:00 to 11:00,
  every statement of the handler succeeding.
\<close>

definition example_booking_run :: booking_run where
  "example_booking_run =
     \<lparr>body_error = None, fields_present = True, client_timezone_valid = True,
      ids_numeric = True, parsedStaffId = 1, businessTimezone = ''UTC'',
      connect_error = None, begin_error = None, service_row = Inr True, customer = Inr 3,
      booking_time_valid = True, bookingStartTimeUTC = 36000000,
      bookingEndTimeUTC = 39600000, rollback_error = None, insert_booking = Inr 42,
      events_insert_error = None, update_event_id_error = None, commit_error = None\<rparr>"

section \<open>Auxiliary notions for stating the properties\<close>

text \<open>The two-digit numeral \<^verbatim>\<open>String(n).padStart(2, '0')\<close> that \<^verbatim>\<open>formatTime\<close> prints.\<close>

definition two_digits :: "nat \<Rightarrow> string" where
  "two_digits n = padStart 2 CHR ''0'' (String_of_nat n)"

text \<open>
  The hour part of a time string is the text before its first colon, the minute part the
  text between the first colon and the second (or the end). They are stated here without
  \<^const>\<open>split_on\<close>, to describe \<^const>\<open>timeToMinutes\<close> from outside.
\<close>

definition hour_part :: "string \<Rightarrow> string" where
  "hour_part s = takeWhile (\<lambda>c. c \<noteq> CHR '':'') s"

definition minute_part :: "string \<Rightarrow> string" where
  "minute_part s = takeWhile (\<lambda>c. c \<noteq> CHR '':'') (tl (dropWhile (\<lambda>c. c \<noteq> CHR '':'') s))"

text \<open>
  The external fetch of the slot listing signals failure-to-verify for a staff member: the
  staff details are found, and \<^const>\<open>getGcalBusyBlocks\<close> returns \<^verbatim>\<open>null\<close> for the day.
\<close>

definition fetch_unverifiable :: "world \<Rightarrow> slot_day \<Rightarrow> int \<Rightarrow> bool" where
  "fetch_unverifiable w day sid \<longleftrightarrow>
     (case getStaffDetails w sid of
        Inr (Some details) \<Rightarrow>
          getGcalBusyBlocks w sid (dayStartUTC day) (dayEndUTC day) (Some details) = Inr None
      | _ \<Rightarrow> False)"

section \<open>Properties of the interval algebra\<close>

subsection \<open>Subtraction of one block, then of all blocks\<close>

lemma cover_count_append: "cover_count (xs @ ys) p = cover_count xs p + cover_count ys p"
  by (simp add: cover_count_def)

lemma cover_count_subtract_from_range:
  assumes "rstart busy < rend busy"
  shows "cover_count (subtract_from_range busy free) p =
           (if covers busy p then 0 else cover_count [free] p)"
  using assms
  by (auto simp: subtract_from_range_def cover_count_def covers_def Let_def)


lemma cover_count_subtract_map:
  assumes "rstart busy < rend busy"
  shows "cover_count (concat (map (subtract_from_range busy) frees)) p =
           (if covers busy p then 0 else cover_count frees p)"
proof (induction frees)
  case Nil
  show ?case by (simp add: cover_count_def)
next
  case (Cons free frees)
  have "cover_count (concat (map (subtract_from_range busy) (free # frees))) p =
          cover_count (subtract_from_range busy free) p
          + cover_count (concat (map (subtract_from_range busy) frees)) p"
    by (simp add: cover_count_append)
  also have "\<dots> = (if covers busy p then 0 else cover_count [free] p)
                 + (if covers busy p then 0 else cover_count frees p)"
    by (simp only: cover_count_subtract_from_range [OF assms] Cons.IH)
  also have "\<dots> = (if covers busy p then 0 else cover_count (free # frees) p)"
    by (simp add: cover_count_def)
  finally show ?case .
qed

lemma cover_count_subtract_busy_blocks:
  "cover_count (subtract_busy_blocks busyBlocks frees) p =
     (if \<exists>b \<in> set busyBlocks. covers b p then 0 else cover_count frees p)"
proof (induction busyBlocks arbitrary: frees)
  case Nil
  show ?case by simp
next
  case (Cons busy rest)
  show ?case
  proof (cases "rend busy \<le> rstart busy")
    case True
    then have "\<not> covers busy p" by (auto simp: covers_def)
    with True Cons.IH show ?thesis by simp
  next
    case False
    then have proper: "rstart busy < rend busy" by simp
    show ?thesis
      using False Cons.IH [of "concat (map (subtract_from_range busy) frees)"]
      by (simp add: cover_count_subtract_map [OF proper])
  qed
qed

lemma cover_count_calculateFreeIntervals:
  "cover_count (calculateFreeIntervals workingIntervals busyBlocks) p =
     (if \<exists>b \<in> set busyBlocks. covers b p then 0 else cover_count workingIntervals p)"
  by (simp add: calculateFreeIntervals_def cover_count_subtract_busy_blocks)

lemma cover_count_zero_iff: "cover_count rs p = 0 \<longleftrightarrow> (\<forall>r \<in> set rs. \<not> covers r p)"
  by (auto simp: cover_count_def filter_empty_conv)

lemma slot_starts_bounds:
  "s \<in> set (slot_starts c d e step) \<Longrightarrow> c \<le> s \<and> s + d \<le> e"
proof (induction c d e step rule: slot_starts.induct)
  case (1 c d e step)
  show ?case
  proof (cases "c + d \<le> e")
    case True
    from "1.prems" True have "s = c \<or> s \<in> set (slot_starts (c + max step 1) d e step)"
      by (subst (asm) slot_starts.simps) simp
    then show ?thesis
    proof
      assume "s = c" with True show ?thesis by simp
    next
      assume "s \<in> set (slot_starts (c + max step 1) d e step)"
      from "1.IH" [OF True this] show ?thesis by linarith
    qed
  next
    case False
    with "1.prems" show ?thesis by (subst (asm) slot_starts.simps) simp
  qed
qed

lemma generateSlots_source_range:
  assumes "s \<in> set (generateSlots freeIntervals d step)"
  shows "\<exists>r \<in> set freeIntervals. rstart r < rend r \<and> rstart r \<le> s \<and> s + d \<le> rend r"
proof -
  from assms obtain r where r: "r \<in> set freeIntervals"
    and s: "s \<in> set (if rend r \<le> rstart r \<or> rend r - rstart r < d then []
                      else slot_starts (rstart r) d (rend r) step)"
    by (auto simp: generateSlots_def)
  from s have "rstart r < rend r" and "s \<in> set (slot_starts (rstart r) d (rend r) step)"
    by (auto split: if_splits)
  with slot_starts_bounds [of s "rstart r" d "rend r" step] r show ?thesis by auto
qed

lemma free_range_avoids_busy:
  assumes "r \<in> set (calculateFreeIntervals W B)" and "b \<in> set B"
  shows "\<not> (covers r p \<and> covers b p)"
proof
  assume cp: "covers r p \<and> covers b p"
  with assms(2) have "cover_count (calculateFreeIntervals W B) p = 0"
    by (auto simp: cover_count_calculateFreeIntervals)
  with assms(1) cp show False by (simp add: cover_count_zero_iff)
qed

subsection \<open>Claim C4: what the free intervals cover\<close>

text \<open>
  C4 as stated asks that every point of the working ranges outside all busy ranges lie in
  exactly one output range. The working ranges are copied as they are, so two working
  ranges that share a point both keep it: with working ranges \<open>[0, 10)\<close> and \<open>[5, 15)\<close> and
  no busy range, the point 7 lies in two output ranges.
\<close>

theorem calculateFreeIntervals_exactly_one_counterexample:
  "covers \<lparr>rstart = 0, rend = 10\<rparr> 7
   \<and> cover_count
        (calculateFreeIntervals [\<lparr>rstart = 0, rend = 10\<rparr>, \<lparr>rstart = 5, rend = 15\<rparr>] []) 7 = 2"
  by (simp add: calculateFreeIntervals_def covers_def cover_count_def)

text \<open>
  C4, amended. For all working ranges \<open>W\<close>, busy ranges \<open>B\<close> and points \<open>p\<close>: no range of
  \<open>calculateFreeIntervals W B\<close> contains a point that a range of \<open>B\<close> contains; and a
  point that lies in no range of \<open>B\<close> lies in as many output ranges as there are ranges of
  \<open>W\<close> containing it, hence in exactly one when exactly one range of \<open>W\<close> contains it (as
  for pairwise disjoint working ranges, and for the single range the slot listing passes).
\<close>

theorem calculateFreeIntervals_points:
  "(\<forall>r \<in> set (calculateFreeIntervals W B). \<forall>b \<in> set B. \<not> (covers r p \<and> covers b p))
   \<and> ((\<forall>b \<in> set B. \<not> covers b p) \<longrightarrow>
        cover_count (calculateFreeIntervals W B) p = cover_count W p)
   \<and> ((\<forall>b \<in> set B. \<not> covers b p) \<and> cover_count W p = 1 \<longrightarrow>
        cover_count (calculateFreeIntervals W B) p = 1)"
proof (intro conjI ballI impI)
  fix r b
  assume "r \<in> set (calculateFreeIntervals W B)" and "b \<in> set B"
  then show "\<not> (covers r p \<and> covers b p)" by (rule free_range_avoids_busy)
next
  assume "\<forall>b \<in> set B. \<not> covers b p"
  then show "cover_count (calculateFreeIntervals W B) p = cover_count W p"
    by (simp add: cover_count_calculateFreeIntervals)
next
  assume "(\<forall>b \<in> set B. \<not> covers b p) \<and> cover_count W p = 1"
  then show "cover_count (calculateFreeIntervals W B) p = 1"
    by (simp add: cover_count_calculateFreeIntervals)
qed

theorem calculateFreeIntervals_points_witness:
  "\<not> covers \<lparr>rstart = 600, rend = 660\<rparr> 700
   \<and> cover_count [\<lparr>rstart = 540, rend = 1020\<rparr>] 700 = 1
   \<and> cover_count
        (calculateFreeIntervals [\<lparr>rstart = 540, rend = 1020\<rparr>] [\<lparr>rstart = 600, rend = 660\<rparr>])
        700 = 1"
proof -
  have busy: "\<forall>b \<in> set [\<lparr>rstart = 600, rend = 660\<rparr>]. \<not> covers b 700"
    by (simp add: covers_def)
  have one: "cover_count [\<lparr>rstart = 540, rend = 1020\<rparr>] 700 = 1"
    by (simp add: cover_count_def covers_def)
  from calculateFreeIntervals_points
    [of "[\<lparr>rstart = 540, rend = 1020\<rparr>]" "[\<lparr>rstart = 600, rend = 660\<rparr>]" 700]
  have "(\<forall>b \<in> set [\<lparr>rstart = 600, rend = 660\<rparr>]. \<not> covers b 700)
          \<and> cover_count [\<lparr>rstart = 540, rend = 1020\<rparr>] 700 = 1 \<longrightarrow>
        cover_count
          (calculateFreeIntervals [\<lparr>rstart = 540, rend = 1020\<rparr>] [\<lparr>rstart = 600, rend = 660\<rparr>])
          700 = 1"
    by (rule conjunct2 [THEN conjunct2])
  with busy one show ?thesis by (simp add: covers_def)
qed

subsection \<open>Claim C5: slot starts fit their range and avoid the busy ranges\<close>

text \<open>
  C5. Every start \<open>s\<close> that \<open>generateSlots\<close> emits comes from a free range \<open>r\<close> of its input
  with \<open>start r \<le> s\<close> and \<open>s + duration \<le> end r\<close>. When the free ranges are
  \<open>calculateFreeIntervals W B\<close>, the slot \<open>[s, s + duration)\<close> shares no point with a range
  of \<open>B\<close>, and it does not overlap a range of \<open>B\<close> with \<open>start < end\<close> in the sense
  \<open>s < end b \<and> start b < s + duration\<close> either.
\<close>

theorem generateSlots_contained_and_clear:
  "(s \<in> set (generateSlots freeIntervals d step) \<longrightarrow>
      (\<exists>r \<in> set freeIntervals. rstart r \<le> s \<and> s + d \<le> rend r))
   \<and> (s \<in> set (generateSlots (calculateFreeIntervals W B) d step) \<and> b \<in> set B \<longrightarrow>
        (\<forall>p. s \<le> p \<and> p < s + d \<longrightarrow> \<not> covers b p)
        \<and> (rstart b < rend b \<longrightarrow> \<not> (s < rend b \<and> rstart b < s + d)))"
proof (intro conjI impI)
  assume "s \<in> set (generateSlots freeIntervals d step)"
  from generateSlots_source_range [OF this]
  show "\<exists>r \<in> set freeIntervals. rstart r \<le> s \<and> s + d \<le> rend r" by blast
next
  assume a: "s \<in> set (generateSlots (calculateFreeIntervals W B) d step) \<and> b \<in> set B"
  then obtain r where r: "r \<in> set (calculateFreeIntervals W B)"
    and rb: "rstart r < rend r" "rstart r \<le> s" "s + d \<le> rend r"
    using generateSlots_source_range by blast
  show "\<forall>p. s \<le> p \<and> p < s + d \<longrightarrow> \<not> covers b p"
  proof (intro allI impI)
    fix p assume "s \<le> p \<and> p < s + d"
    with rb have "covers r p" by (simp add: covers_def)
    with free_range_avoids_busy [OF r, of b p] a show "\<not> covers b p" by blast
  qed
next
  assume a: "s \<in> set (generateSlots (calculateFreeIntervals W B) d step) \<and> b \<in> set B"
    and proper: "rstart b < rend b"
  then obtain r where r: "r \<in> set (calculateFreeIntervals W B)"
    and rb: "rstart r < rend r" "rstart r \<le> s" "s + d \<le> rend r"
    using generateSlots_source_range by blast
  show "\<not> (s < rend b \<and> rstart b < s + d)"
  proof
    assume ov: "s < rend b \<and> rstart b < s + d"
    define p where "p = max (rstart r) (rstart b)"
    from ov rb proper have "covers r p \<and> covers b p"
      by (auto simp: covers_def p_def)
    with free_range_avoids_busy [OF r, of b p] a show False by blast
  qed
qed

theorem generateSlots_contained_and_clear_witness:
  "660 \<in> set (generateSlots
                (calculateFreeIntervals [\<lparr>rstart = 540, rend = 1020\<rparr>] [\<lparr>rstart = 600, rend = 660\<rparr>])
                30 15)
   \<and> (\<exists>r \<in> set (calculateFreeIntervals [\<lparr>rstart = 540, rend = 1020\<rparr>]
                    [\<lparr>rstart = 600, rend = 660\<rparr>]).
         rstart r \<le> 660 \<and> 660 + 30 \<le> rend r)
   \<and> \<not> covers \<lparr>rstart = 600, rend = 660\<rparr> 670
   \<and> \<not> (660 < rend \<lparr>rstart = 600, rend = 660\<rparr> \<and> rstart \<lparr>rstart = 600, rend = 660\<rparr> < 660 + 30)"
proof -
  let ?W = "[\<lparr>rstart = 540, rend = 1020\<rparr>]"
  let ?b = "\<lparr>rstart = 600, rend = 660\<rparr>"
  have free: "calculateFreeIntervals ?W [?b]
                = [\<lparr>rstart = 540, rend = 600\<rparr>, \<lparr>rstart = 660, rend = 1020\<rparr>]"
    by (simp add: calculateFreeIntervals_def subtract_from_range_def)
  have mem: "660 \<in> set (generateSlots (calculateFreeIntervals ?W [?b]) 30 15)"
    by (simp add: free generateSlots_def slot_starts.simps [of 660])
  note inst = generateSlots_contained_and_clear
    [of 660 "calculateFreeIntervals ?W [?b]" 30 15 ?W "[?b]" ?b]
  from inst mem
  have src: "\<exists>r \<in> set (calculateFreeIntervals ?W [?b]). rstart r \<le> 660 \<and> 660 + 30 \<le> rend r"
    by blast
  from inst mem
  have clear: "(\<forall>p. 660 \<le> p \<and> p < 660 + 30 \<longrightarrow> \<not> covers ?b p)
               \<and> (rstart ?b < rend ?b \<longrightarrow> \<not> (660 < rend ?b \<and> rstart ?b < 660 + 30))"
    by simp
  from clear have "\<not> covers ?b 670" by simp
  with mem src clear show ?thesis by simp
qed

section \<open>Properties of the time-of-day functions\<close>

lemma digit_char_props:
  assumes "d < 10"
  shows "is_digit (digit_char d)" "digit_value (digit_char d) = d"
    "\<not> is_js_whitespace (digit_char d)" "digit_char d \<noteq> CHR '':''"
    "digit_char d \<noteq> CHR ''-''" "digit_char d \<noteq> CHR ''+''"
proof -
  have oc: "(of_char (digit_char d) :: nat) = 48 + d"
    using assms by (simp add: digit_char_def)
  show "is_digit (digit_char d)" using assms by (simp add: is_digit_def oc)
  show "digit_value (digit_char d) = d" by (simp add: digit_value_def oc)
  show "\<not> is_js_whitespace (digit_char d)" using assms by (simp add: is_js_whitespace_def oc)
  show "digit_char d \<noteq> CHR '':''" using oc assms by auto
  show "digit_char d \<noteq> CHR ''-''" using oc by auto
  show "digit_char d \<noteq> CHR ''+''" using oc by auto
qed

lemma two_digits_eq:
  assumes "n < 100"
  shows "two_digits n = [digit_char (n div 10), digit_char (n mod 10)]"
proof (cases "n < 10")
  case True
  then have "String_of_nat n = [digit_char n]" by (simp add: String_of_nat.simps)
  moreover have "digit_char 0 = CHR ''0''"
  proof -
    have "(of_char (digit_char 0) :: nat) = of_char CHR ''0''" by (simp add: digit_char_def)
    then show ?thesis by (simp only: of_char_eq_iff)
  qed
  ultimately show ?thesis using True by (simp add: two_digits_def padStart_def)
next
  case False
  with assms have "n div 10 < 10" by simp
  then have "String_of_nat (n div 10) = [digit_char (n div 10)]"
    by (simp add: String_of_nat.simps)
  with False have "String_of_nat n = [digit_char (n div 10), digit_char (n mod 10)]"
    by (subst String_of_nat.simps) simp
  then show ?thesis by (simp add: two_digits_def padStart_def)
qed

lemma parseInt_two_digit_prefix:
  assumes "a < 10" "b < 10" "rest = [] \<or> \<not> is_digit (hd rest)"
  shows "parseInt (digit_char a # digit_char b # rest) = Some (int (10 * a + b))"
proof -
  have tw: "takeWhile is_digit rest = []" using assms(3) by (cases rest) auto
  show ?thesis
    using assms(1,2) digit_char_props [of a] digit_char_props [of b]
    by (simp add: parseInt_def Let_def tw digits_value_def)
qed

lemma split_on_not_Nil: "split_on sep s \<noteq> []"
  by (induction s) (auto split: list.splits)

lemma hd_split_on: "hd (split_on sep s) = takeWhile (\<lambda>c. c \<noteq> sep) s"
  by (induction s) (auto split: list.splits simp: split_on_not_Nil)

lemma split_on_tail:
  "sep \<in> set s \<Longrightarrow> tl (split_on sep s) = split_on sep (tl (dropWhile (\<lambda>c. c \<noteq> sep) s))"
  by (induction s) (auto split: list.splits simp: split_on_not_Nil)

lemma length_split_on: "length (split_on sep s) < 2 \<longleftrightarrow> sep \<notin> set s"
proof (induction s)
  case Nil show ?case by simp
next
  case (Cons c cs)
  then show ?case
    using split_on_not_Nil [of sep cs]
    by (cases "split_on sep cs") (auto split: list.splits)
qed

lemma nth1_split_on:
  "sep \<in> set s \<Longrightarrow>
     split_on sep s ! Suc 0 = takeWhile (\<lambda>c. c \<noteq> sep) (tl (dropWhile (\<lambda>c. c \<noteq> sep) s))"
proof -
  assume a: "sep \<in> set s"
  have "split_on sep s ! Suc 0 = hd (tl (split_on sep s))"
    using split_on_not_Nil [of sep s] length_split_on [of sep s] a
    by (cases "split_on sep s"; cases "tl (split_on sep s)") auto
  then show ?thesis by (simp add: split_on_tail [OF a] hd_split_on)
qed

lemma nth0_split_on: "split_on sep s ! 0 = takeWhile (\<lambda>c. c \<noteq> sep) s"
  using split_on_not_Nil [of sep s] hd_split_on [of sep s]
  by (cases "split_on sep s") auto

lemma timeToMinutes_parts:
  "timeToMinutes s =
     (if CHR '':'' \<notin> set s then - 1
      else (case (parseInt (hour_part s), parseInt (minute_part s)) of
              (Some hours, Some minutes) \<Rightarrow>
                if 0 \<le> hours \<and> hours \<le> 23 \<and> 0 \<le> minutes \<and> minutes \<le> 59
                then hours * 60 + minutes else - 1
            | _ \<Rightarrow> - 1))"
proof (cases "CHR '':'' \<in> set s")
  case False
  then show ?thesis
    using length_split_on [of "CHR '':''" s]
    by (simp add: timeToMinutes_def Let_def)
next
  case True
  then have ne: "s \<noteq> []" by auto
  from True have len: "\<not> length (split_on CHR '':'' s) < 2" by (simp add: length_split_on)
  have p0: "split_on CHR '':'' s ! 0 = hour_part s"
    by (simp only: nth0_split_on hour_part_def)
  have p1: "split_on CHR '':'' s ! Suc 0 = minute_part s"
    by (simp only: nth1_split_on [OF True] minute_part_def)
  show ?thesis
    using True ne len
    by (auto simp: timeToMinutes_def Let_def p0 p1 split: option.splits)
qed

lemma timeToMinutes_two_digits:
  assumes "h < 24" "m < 60" "rest = [] \<or> hd rest = CHR '':''"
  shows "timeToMinutes (two_digits h @ '':'' @ two_digits m @ rest) = int (h * 60 + m)"
proof -
  let ?s = "two_digits h @ '':'' @ two_digits m @ rest"
  have h2: "two_digits h = [digit_char (h div 10), digit_char (h mod 10)]"
    and m2: "two_digits m = [digit_char (m div 10), digit_char (m mod 10)]"
    using assms by (simp_all add: two_digits_eq)
  have hd: "h div 10 < 10" "h mod 10 < 10" "m div 10 < 10" "m mod 10 < 10"
    using assms by simp_all
  note dc = digit_char_props(4) [OF hd(1)] digit_char_props(4) [OF hd(2)]
    digit_char_props(4) [OF hd(3)] digit_char_props(4) [OF hd(4)]
  have colon: "CHR '':'' \<in> set ?s" by simp
  have hp: "hour_part ?s = two_digits h"
    using dc by (simp add: hour_part_def h2)
  have tw: "takeWhile (\<lambda>c. c \<noteq> CHR '':'') rest = []"
    using assms(3) by (cases rest) auto
  have mp: "minute_part ?s = two_digits m"
    using dc by (simp add: minute_part_def h2 m2 tw)
  have ph: "parseInt (two_digits h) = Some (int h)"
    using parseInt_two_digit_prefix [OF hd(1,2), of "[]"] by (simp add: h2)
  have pm: "parseInt (two_digits m) = Some (int m)"
    using parseInt_two_digit_prefix [OF hd(3,4), of "[]"] by (simp add: m2)
  show ?thesis
    using assms(1,2) colon
    by (simp only: timeToMinutes_parts hp mp ph pm) simp
qed

subsection \<open>Claim C6: formatting, then parsing, gives the minutes back\<close>

text \<open>
  C6. For every integer \<open>m\<close> with \<open>0 \<le> m \<le> 1439\<close>,
  \<open>timeToMinutes (formatTime m) = m\<close>.
\<close>

theorem formatTime_roundtrip:
  assumes "0 \<le> m" "m \<le> 1439"
  shows "timeToMinutes (formatTime m) = m"
proof -
  define h where "h = nat (m div 60)"
  define mi where "mi = nat (m mod 60)"
  have d: "0 \<le> m div 60" "m div 60 < 24" "0 \<le> m mod 60" "m mod 60 < 60"
    using assms by auto
  have hb: "h < 24" and mb: "mi < 60" using d by (auto simp: h_def mi_def)
  have m_eq: "m = int (h * 60 + mi)" using d by (simp add: h_def mi_def)
  have wrap: "m mod (24 * 60) = m" using assms by simp
  have "formatTime m = two_digits h @ '':'' @ two_digits mi @ []"
    using assms wrap by (simp add: formatTime_def Let_def two_digits_def h_def mi_def)
  then show ?thesis
    using timeToMinutes_two_digits [OF hb mb, of "[]"] m_eq by simp
qed

theorem formatTime_roundtrip_witness:
  "(0::int) \<le> 570 \<and> (570::int) \<le> 1439 \<and> timeToMinutes (formatTime 570) = 570"
proof -
  have lo: "(0::int) \<le> 570" and hi: "(570::int) \<le> 1439" by simp_all
  from formatTime_roundtrip [OF lo hi] lo hi show ?thesis by simp
qed

subsection \<open>What timeToMinutes accepts and rejects\<close>

text \<open>
  \<open>timeToMinutes\<close> returns \<open>60 * h + m\<close> for the text \<open>HH:MM\<close> of an hour \<open>h < 24\<close> and a
  minute \<open>m < 60\<close>, also when \<open>:SS\<close> (any text after a further colon) follows. It returns
  \<open>-1\<close> when the string has no colon, when \<^verbatim>\<open>parseInt\<close> finds no integer at the start of
  the hour part or of the minute part, when the integer read from the hour part is
  outside \<open>0..23\<close>, and when the integer read from the minute part is outside \<open>0..59\<close>.
  The function is total on strings: it has no throwing path.
\<close>

lemma timeToMinutes_behaviour:
  "(h < 24 \<and> m < 60 \<longrightarrow>
      timeToMinutes (two_digits h @ '':'' @ two_digits m) = int (h * 60 + m)
      \<and> timeToMinutes (two_digits h @ '':'' @ two_digits m @ '':'' @ seconds)
          = int (h * 60 + m))
   \<and> (CHR '':'' \<notin> set s \<or> parseInt (hour_part s) = None \<or> parseInt (minute_part s) = None
        \<longrightarrow> timeToMinutes s = - 1)
   \<and> (parseInt (hour_part s) = Some hours \<and> (hours < 0 \<or> 23 < hours)
        \<longrightarrow> timeToMinutes s = - 1)
   \<and> (parseInt (minute_part s) = Some minutes \<and> (minutes < 0 \<or> 59 < minutes)
        \<longrightarrow> timeToMinutes s = - 1)"
proof (intro conjI impI)
  assume hm: "h < 24 \<and> m < 60"
  then show "timeToMinutes (two_digits h @ '':'' @ two_digits m) = int (h * 60 + m)"
    using timeToMinutes_two_digits [of h m "[]"] by simp
  from hm show "timeToMinutes (two_digits h @ '':'' @ two_digits m @ '':'' @ seconds)
                  = int (h * 60 + m)"
    using timeToMinutes_two_digits [of h m "'':'' @ seconds"] by simp
next
  assume "CHR '':'' \<notin> set s \<or> parseInt (hour_part s) = None \<or> parseInt (minute_part s) = None"
  then show "timeToMinutes s = - 1"
    by (auto simp: timeToMinutes_parts split: option.splits)
next
  assume "parseInt (hour_part s) = Some hours \<and> (hours < 0 \<or> 23 < hours)"
  then show "timeToMinutes s = - 1"
    by (auto simp: timeToMinutes_parts split: option.splits)
next
  assume "parseInt (minute_part s) = Some minutes \<and> (minutes < 0 \<or> 59 < minutes)"
  then show "timeToMinutes s = - 1"
    by (auto simp: timeToMinutes_parts split: option.splits)
qed

lemma timeToMinutes_examples:
  "timeToMinutes ''09:30'' = 570 \<and> timeToMinutes ''09:30:15'' = 570
   \<and> timeToMinutes ''ab:00'' = - 1 \<and> timeToMinutes ''24:00'' = - 1
   \<and> timeToMinutes ''12:60'' = - 1 \<and> timeToMinutes ''1230'' = - 1"
  by (simp add: timeToMinutes_parts hour_part_def minute_part_def parseInt_def
      is_js_whitespace_def is_digit_def digits_value_def digit_value_def)

subsection \<open>Claim C7: a non-numeric hour or minute part gives the invalid marker\<close>

text \<open>
  C7 asks for the invalid marker \<open>-1\<close> whenever the hour part or the minute part of the
  string is non-numeric, and the function's own description promises \<open>-1\<close> ``if the
  format is invalid''. The code tests the parts with \<^verbatim>\<open>isNaN(parseInt(part, 10))\<close>, and
  \<^verbatim>\<open>parseInt\<close> reads the digits a part starts with and ignores the rest. So the string
  \<open>12abc:30\<close>, whose hour part \<open>12abc\<close> is not a numeral, is not refused: the function
  returns 750, the minutes of 12:30. The theorem evaluates the function at that string.
\<close>

theorem timeToMinutes_trailing_text_accepted:
  "hour_part ''12abc:30'' = ''12abc''
   \<and> \<not> list_all is_digit ''12abc''
   \<and> timeToMinutes ''12abc:30'' = 750"
  by (simp add: timeToMinutes_parts hour_part_def minute_part_def parseInt_def
      is_js_whitespace_def is_digit_def digits_value_def digit_value_def)

section \<open>Properties of checkAvailability and its helpers\<close>

lemma catch_reading_property_not_Nullish:
  "catch_reading_property error fallback \<noteq> Inl Nullish"
  by (simp add: catch_reading_property_def split: js_thrown.splits)

lemma getStaffDetails_not_Nullish: "getStaffDetails w sid \<noteq> Inl Nullish"
  by (simp add: getStaffDetails_def catch_reading_property_not_Nullish
      split: option.splits list.splits)

lemma getWorkingInterval_not_Nullish: "getWorkingInterval w sid d \<noteq> Inl Nullish"
  by (simp add: getWorkingInterval_def catch_reading_property_not_Nullish
      split: option.splits list.splits)

lemma working_hours_check_throws:
  "working_hours_check wi tz s d = Inl (Thrown ''ReferenceError: newEndTimeLocal is not defined'')"
  by (simp add: working_hours_check_def newEndTimeLocal_def Let_def)

lemma checkAvailability_try_not_Nullish: "checkAvailability_try w options \<noteq> Inl Nullish"
proof -
  have staff: "(case staffDetails options of
                  Some provided \<Rightarrow> Inr (Some provided)
                | None \<Rightarrow> getStaffDetails w (staffId options)) \<noteq> Inl Nullish"
    using getStaffDetails_not_Nullish by (simp split: option.splits)
  show ?thesis
    unfolding checkAvailability_try_def Let_def
    using staff getWorkingInterval_not_Nullish
    by (auto simp: working_hours_check_throws split: sum.splits option.splits)
qed

lemma checkAvailability_returns: "\<exists>result. checkAvailability w options = Inr result"
  using checkAvailability_try_not_Nullish [of w options]
  by (auto simp: checkAvailability_def catch_reading_property_def
      split: sum.splits js_thrown.splits)

lemmas reason_defs = booking_conflict_reason_def unverifiable_reason_def
  calendar_conflict_reason_def internal_error_reason_def

lemma bookings_query_only_excluded:
  assumes "\<forall>row \<in> set (bookings_table w).
             b_staff_id row = sid \<and> status row = ''confirmed''
             \<and> tstzrange_overlap s e (booking_start_time row) (booking_end_time row)
             \<longrightarrow> booking_id row = excluded"
  shows "bookings_query w sid s e (Some excluded) = []"
  using assms by (auto simp: bookings_query_def filter_empty_conv)

lemma conflict_stages_reasons:
  assumes "getDbBusyBlocks w (staffId options) (newBookingStartTimeUTC options)
             (newBookingEndTimeUTC options) (bookingIdToExclude options) = Inr []"
    and "conflict_stages w options details [] = Inr result"
  shows "reasons result = [] \<or> reasons result = [unverifiable_reason]
         \<or> reasons result = [calendar_conflict_reason]"
  using assms
  by (auto simp: conflict_stages_def Let_def split: sum.splits option.splits if_splits)

lemma checkAvailability_reasons:
  assumes "checkAvailability w options = Inr result"
  shows "reasons result = [''Server configuration error [Timezone].'']
         \<or> reasons result = [''Staff member not found or inactive.'']
         \<or> reasons result = [''Staff member does not work on the selected day.'']
         \<or> reasons result = [internal_error_reason]"
  using assms
  by (auto simp: checkAvailability_def checkAvailability_try_def Let_def
        working_hours_check_throws catch_reading_property_def
      split: sum.splits option.splits if_splits js_thrown.splits)

text \<open>
  Hence no call of \<^const>\<open>checkAvailability\<close> answers that the slot is available: a staff
  member without working hours is refused, and with working hours the comparison throws.
\<close>

lemma checkAvailability_never_available:
  assumes "checkAvailability w options = Inr result"
  shows "\<not> isAvailable result"
  using assms
  by (auto simp: checkAvailability_def checkAvailability_try_def Let_def
        working_hours_check_throws catch_reading_property_def
      split: sum.splits option.splits if_splits js_thrown.splits)

text \<open>
  The two conflict stages by themselves are fail-closed: with no conflicting stored block
  and an unverifiable calendar they refuse the slot with the reason for it.
\<close>

lemma conflict_stages_unverifiable:
  assumes "getDbBusyBlocks w (staffId options) (newBookingStartTimeUTC options)
             (newBookingEndTimeUTC options) (bookingIdToExclude options) = Inr blocks"
    and "\<not> list_ex (conflicts_with (newBookingStartTimeUTC options)
             (newBookingEndTimeUTC options)) blocks"
    and "getGcalBusyBlocks w (staffId options) (newBookingStartTimeUTC options)
             (newBookingEndTimeUTC options) (Some details) = Inr None"
  shows "conflict_stages w options details []
           = Inr \<lparr>isAvailable = False, reasons = [unverifiable_reason]\<rparr>"
  using assms by (simp add: conflict_stages_def Let_def)

lemma example_working_interval:
  "getWorkingInterval example_world 1 4 = Inr (Some \<lparr>wi_start = ''09:00'', wi_end = ''17:00''\<rparr>)"
  by (simp add: getWorkingInterval_def example_world_def)

subsection \<open>Claim C1: an unverifiable calendar in checkAvailability\<close>

text \<open>
  C1 asks that a check which reaches the external-calendar stage with an unverifiable
  calendar return \<open>isAvailable = False\<close> with the reason ``Could not verify Google Calendar
  availability.''. The two conflict stages do so (\<open>conflict_stages_unverifiable\<close>), but
  \<^const>\<open>checkAvailability\<close> never reaches them: for a staff member with working hours the
  comparison with the working hours throws the \<^verbatim>\<open>ReferenceError\<close>, and the \<^verbatim>\<open>catch\<close> block
  answers with the internal-error reason. The theorem evaluates the input of the
  repository's own test ``should return unavailable and log error if GCal query fails'':
  active staff with a linked calendar, working 09:00 to 17:00, request 10:00 to 11:00, no
  stored booking, and a free/busy query that throws.
\<close>

theorem checkAvailability_calendar_down_internal_error:
  "getGcalBusyBlocks calendar_down_world 1 36000000 39600000 (Some example_staff) = Inr None
   \<and> conflict_stages calendar_down_world example_options example_staff []
        = Inr \<lparr>isAvailable = False, reasons = [unverifiable_reason]\<rparr>
   \<and> checkAvailability calendar_down_world example_options
        = Inr \<lparr>isAvailable = False, reasons = [internal_error_reason]\<rparr>
   \<and> unverifiable_reason \<notin> set [internal_error_reason]"
proof -
  have gcal: "getGcalBusyBlocks calendar_down_world 1 36000000 39600000 (Some example_staff)
                = Inr None"
    by (simp add: getGcalBusyBlocks_def calendar_down_world_def example_world_def
        example_staff_def catch_reading_property_def)
  have db: "getDbBusyBlocks calendar_down_world 1 36000000 39600000 None = Inr []"
    by (simp add: getDbBusyBlocks_def bookings_query_def bookings_query_raises_def
        calendar_down_world_def example_world_def)
  have stage: "conflict_stages calendar_down_world example_options example_staff []
        = Inr \<lparr>isAvailable = False, reasons = [unverifiable_reason]\<rparr>"
    by (rule conflict_stages_unverifiable [where blocks = "[]"])
       (simp_all add: example_options_def db gcal)
  have staff: "getStaffDetails calendar_down_world 1 = Inr (Some example_staff)"
    by (simp add: getStaffDetails_def calendar_down_world_def example_world_def)
  have wi: "getWorkingInterval calendar_down_world 1 4
              = Inr (Some \<lparr>wi_start = ''09:00'', wi_end = ''17:00''\<rparr>)"
    by (simp add: getWorkingInterval_def calendar_down_world_def example_world_def)
  have active: "is_active example_staff" by (simp add: example_staff_def)
  have wd: "isoWeekday calendar_down_world ''UTC'' 36000000 = 4"
    by (simp add: calendar_down_world_def example_world_def)
  have "checkAvailability_try calendar_down_world example_options
          = Inl (Thrown ''ReferenceError: newEndTimeLocal is not defined'')"
    by (simp add: checkAvailability_try_def example_options_def staff wi active wd Let_def
        working_hours_check_throws)
  then have whole: "checkAvailability calendar_down_world example_options
        = Inr \<lparr>isAvailable = False, reasons = [internal_error_reason]\<rparr>"
    by (simp add: checkAvailability_def catch_reading_property_def calendar_down_world_def
        example_world_def)
  have "unverifiable_reason \<notin> set [internal_error_reason]"
    by (simp add: reason_defs)
  with gcal stage whole show ?thesis by simp
qed

subsection \<open>Claim C8: the excluded booking is not reported\<close>

text \<open>
  C8. When every confirmed booking of the staff member that overlaps the requested range
  has the id given as \<^verbatim>\<open>bookingIdToExclude\<close>, the query of \<^const>\<open>getDbBusyBlocks\<close> selects no
  row, the function returns no block, and neither the conflict stages nor
  \<^const>\<open>checkAvailability\<close> report ``Conflicts with another booking in the schedule.''.
  The reschedule route passes the id of the booking it moves (\<^const>\<open>reschedule_options\<close>).
\<close>

theorem excluded_booking_not_reported:
  assumes only: "\<forall>row \<in> set (bookings_table w).
             b_staff_id row = staffId options \<and> status row = ''confirmed''
             \<and> tstzrange_overlap (newBookingStartTimeUTC options) (newBookingEndTimeUTC options)
                  (booking_start_time row) (booking_end_time row)
             \<longrightarrow> booking_id row = excluded"
    and excl: "bookingIdToExclude options = Some excluded"
  shows "bookings_query w (staffId options) (newBookingStartTimeUTC options)
           (newBookingEndTimeUTC options) (bookingIdToExclude options) = []
         \<and> (\<forall>blocks. getDbBusyBlocks w (staffId options) (newBookingStartTimeUTC options)
               (newBookingEndTimeUTC options) (bookingIdToExclude options) = Inr blocks
               \<longrightarrow> blocks = [])
         \<and> (\<forall>result. conflict_stages w options details [] = Inr result
               \<longrightarrow> booking_conflict_reason \<notin> set (reasons result))
         \<and> (\<forall>result. checkAvailability w options = Inr result
               \<longrightarrow> booking_conflict_reason \<notin> set (reasons result))"
proof -
  have q: "bookings_query w (staffId options) (newBookingStartTimeUTC options)
             (newBookingEndTimeUTC options) (bookingIdToExclude options) = []"
    unfolding excl using only by (rule bookings_query_only_excluded)
  have db: "\<And>blocks. getDbBusyBlocks w (staffId options) (newBookingStartTimeUTC options)
               (newBookingEndTimeUTC options) (bookingIdToExclude options) = Inr blocks
               \<Longrightarrow> blocks = []"
    using q
    by (auto simp: getDbBusyBlocks_def catch_reading_property_def
        split: option.splits js_thrown.splits if_splits)
  have stage: "\<And>result. conflict_stages w options details [] = Inr result
               \<Longrightarrow> booking_conflict_reason \<notin> set (reasons result)"
  proof -
    fix result assume r: "conflict_stages w options details [] = Inr result"
    then obtain blocks where b: "getDbBusyBlocks w (staffId options)
        (newBookingStartTimeUTC options) (newBookingEndTimeUTC options)
        (bookingIdToExclude options) = Inr blocks"
      by (auto simp: conflict_stages_def Let_def split: sum.splits)
    with db have "getDbBusyBlocks w (staffId options)
        (newBookingStartTimeUTC options) (newBookingEndTimeUTC options)
        (bookingIdToExclude options) = Inr []" by simp
    from conflict_stages_reasons [OF this r]
    show "booking_conflict_reason \<notin> set (reasons result)"
      by (auto simp: reason_defs)
  qed
  have whole: "\<And>result. checkAvailability w options = Inr result
               \<Longrightarrow> booking_conflict_reason \<notin> set (reasons result)"
    using checkAvailability_reasons by (fastforce simp: reason_defs)
  from q db stage whole show ?thesis by blast
qed

theorem excluded_booking_not_reported_witness:
  "bookingIdToExclude rescheduling_options = Some 7
   \<and> bookings_query rescheduling_world 1 37800000 41400000 None \<noteq> []
   \<and> bookings_query rescheduling_world (staffId rescheduling_options)
        (newBookingStartTimeUTC rescheduling_options)
        (newBookingEndTimeUTC rescheduling_options)
        (bookingIdToExclude rescheduling_options) = []
   \<and> conflict_stages rescheduling_world rescheduling_options example_staff []
        = Inr \<lparr>isAvailable = True, reasons = []\<rparr>
   \<and> booking_conflict_reason \<notin> set (reasons \<lparr>isAvailable = True, reasons = []\<rparr>)"
proof -
  have excl: "bookingIdToExclude rescheduling_options = Some 7"
    by (simp add: rescheduling_options_def reschedule_options_def)
  have only: "\<forall>row \<in> set (bookings_table rescheduling_world).
             b_staff_id row = staffId rescheduling_options \<and> status row = ''confirmed''
             \<and> tstzrange_overlap (newBookingStartTimeUTC rescheduling_options)
                  (newBookingEndTimeUTC rescheduling_options)
                  (booking_start_time row) (booking_end_time row)
             \<longrightarrow> booking_id row = 7"
    by (simp add: rescheduling_world_def example_world_def)
  note inst = excluded_booking_not_reported [OF only excl, of example_staff]
  have q: "bookings_query rescheduling_world (staffId rescheduling_options)
        (newBookingStartTimeUTC rescheduling_options)
        (newBookingEndTimeUTC rescheduling_options)
        (bookingIdToExclude rescheduling_options) = []"
    using inst by (rule conjunct1)
  have other: "bookings_query rescheduling_world 1 37800000 41400000 None \<noteq> []"
    by (simp add: bookings_query_def rescheduling_world_def example_world_def
        tstzrange_overlap_def)
  have db: "getDbBusyBlocks rescheduling_world (staffId rescheduling_options)
        (newBookingStartTimeUTC rescheduling_options)
        (newBookingEndTimeUTC rescheduling_options)
        (bookingIdToExclude rescheduling_options) = Inr []"
  proof -
    have "bookings_query_error rescheduling_world (staffId rescheduling_options) = None"
      by (simp add: rescheduling_world_def example_world_def)
    moreover have "\<not> bookings_query_raises rescheduling_world (staffId rescheduling_options)"
      by (simp add: bookings_query_raises_def rescheduling_world_def example_world_def)
    ultimately show ?thesis by (simp add: getDbBusyBlocks_def q)
  qed
  have gcal: "getGcalBusyBlocks rescheduling_world (staffId rescheduling_options)
        (newBookingStartTimeUTC rescheduling_options)
        (newBookingEndTimeUTC rescheduling_options) (Some example_staff) = Inr (Some [])"
    by (simp add: getGcalBusyBlocks_def rescheduling_world_def example_world_def
        example_staff_def)
  have stage: "conflict_stages rescheduling_world rescheduling_options example_staff []
        = Inr \<lparr>isAvailable = True, reasons = []\<rparr>"
    by (simp add: conflict_stages_def Let_def db gcal)
  from excl other q stage show ?thesis by simp
qed

subsection \<open>Claim C9: what becomes of a persistence error\<close>

text \<open>
  C9 as stated asks that an unexpected failure, such as a persistence error, reach the
  caller as an error and never be folded into an ordinary availability result. The
  helpers catch what the database client throws: a failed staff query makes
  \<^const>\<open>getStaffDetails\<close> return \<^verbatim>\<open>null\<close>, and the check then answers with the ordinary
  reason ``Staff member not found or inactive.''; a failed bookings query makes
  \<^const>\<open>getDbBusyBlocks\<close> return the empty list, as if no booking were stored.
\<close>

theorem persistence_error_folded_counterexample:
  "staff_query_error staff_query_down_world 1 = Some (Thrown ''Connection terminated'')
   \<and> checkAvailability staff_query_down_world example_options
        = Inr \<lparr>isAvailable = False, reasons = [''Staff member not found or inactive.'']\<rparr>
   \<and> bookings_query_error bookings_query_down_world 1 = Some (Thrown ''Connection terminated'')
   \<and> getDbBusyBlocks bookings_query_down_world 1 36000000 39600000 None = Inr []"
  by (simp add: staff_query_down_world_def bookings_query_down_world_def example_world_def
      example_options_def checkAvailability_def checkAvailability_try_def getStaffDetails_def
      getDbBusyBlocks_def catch_reading_property_def)

text \<open>
  C9, amended. No error reaches the caller of \<^const>\<open>checkAvailability\<close>. An \<^verbatim>\<open>Error\<close> thrown
  by the staff query, the working-hours query or the bookings query is caught in the
  helper and becomes ``no staff row'', ``no working hours'' and ``no stored booking'';
  with a failing staff query the check returns, as data, \<open>isAvailable = False\<close> with the
  reason ``Staff member not found or inactive.''.
\<close>

theorem persistence_errors_are_folded:
  "(staff_query_error w sid = Some (Thrown message) \<longrightarrow> getStaffDetails w sid = Inr None)
   \<and> (working_hours_query_error w sid = Some (Thrown message) \<longrightarrow>
        getWorkingInterval w sid day = Inr None)
   \<and> (bookings_query_error w sid = Some (Thrown message) \<longrightarrow>
        getDbBusyBlocks w sid startTimeUTC endTimeUTC excluded = Inr [])
   \<and> (BUSINESS_TIMEZONE_valid w \<and> staffDetails options = None
        \<and> staff_query_error w (staffId options) = Some (Thrown message) \<longrightarrow>
        checkAvailability w options
          = Inr \<lparr>isAvailable = False, reasons = [''Staff member not found or inactive.'']\<rparr>)
   \<and> (\<forall>error. checkAvailability w options \<noteq> Inl error)"
proof (intro conjI impI allI)
  assume "staff_query_error w sid = Some (Thrown message)"
  then show "getStaffDetails w sid = Inr None"
    by (simp add: getStaffDetails_def catch_reading_property_def)
next
  assume "working_hours_query_error w sid = Some (Thrown message)"
  then show "getWorkingInterval w sid day = Inr None"
    by (simp add: getWorkingInterval_def catch_reading_property_def)
next
  assume "bookings_query_error w sid = Some (Thrown message)"
  then show "getDbBusyBlocks w sid startTimeUTC endTimeUTC excluded = Inr []"
    by (simp add: getDbBusyBlocks_def catch_reading_property_def)
next
  assume "BUSINESS_TIMEZONE_valid w \<and> staffDetails options = None
        \<and> staff_query_error w (staffId options) = Some (Thrown message)"
  then show "checkAvailability w options
          = Inr \<lparr>isAvailable = False, reasons = [''Staff member not found or inactive.'']\<rparr>"
    by (simp add: checkAvailability_def checkAvailability_try_def getStaffDetails_def
        catch_reading_property_def)
next
  fix error
  from checkAvailability_returns [of w options]
  show "checkAvailability w options \<noteq> Inl error" by auto
qed

theorem persistence_errors_are_folded_witness:
  "staff_query_error staff_query_down_world 1 = Some (Thrown ''Connection terminated'')
   \<and> getStaffDetails staff_query_down_world 1 = Inr None
   \<and> BUSINESS_TIMEZONE_valid staff_query_down_world
   \<and> staffDetails example_options = None
   \<and> checkAvailability staff_query_down_world example_options
        = Inr \<lparr>isAvailable = False, reasons = [''Staff member not found or inactive.'']\<rparr>
   \<and> bookings_query_error bookings_query_down_world 1 = Some (Thrown ''Connection terminated'')
   \<and> getDbBusyBlocks bookings_query_down_world 1 36000000 39600000 None = Inr []"
proof -
  have s: "staff_query_error staff_query_down_world 1 = Some (Thrown ''Connection terminated'')"
    by (simp add: staff_query_down_world_def)
  have tz: "BUSINESS_TIMEZONE_valid staff_query_down_world"
    by (simp add: staff_query_down_world_def example_world_def)
  have o: "staffDetails example_options = None" "staffId example_options = 1"
    by (simp_all add: example_options_def)
  have b: "bookings_query_error bookings_query_down_world 1
             = Some (Thrown ''Connection terminated'')"
    by (simp add: bookings_query_down_world_def)
  note i1 = persistence_errors_are_folded
    [of staff_query_down_world 1 "''Connection terminated''" 4 0 0 None example_options]
  note i2 = persistence_errors_are_folded
    [of bookings_query_down_world 1 "''Connection terminated''" 4 36000000 39600000 None
        example_options]
  from i1 s have g: "getStaffDetails staff_query_down_world 1 = Inr None" by blast
  from i1 s tz o have c: "checkAvailability staff_query_down_world example_options
        = Inr \<lparr>isAvailable = False, reasons = [''Staff member not found or inactive.'']\<rparr>"
    by simp
  from i2 b have d: "getDbBusyBlocks bookings_query_down_world 1 36000000 39600000 None = Inr []"
    by blast
  from s g tz o c b d show ?thesis by simp
qed

(* ---------- C2 ---------- *)

subsection \<open>Claim C10: checkAvailability always returns a result\<close>

text \<open>
  C10. For every world and all options, \<^const>\<open>checkAvailability\<close> returns an
  \<^typ>\<open>AvailabilityResult\<close> and throws nothing; and when its \<^verbatim>\<open>try\<close> block throws, the
  result is \<open>isAvailable = False\<close> with the single reason ``An internal error occurred
  while checking availability.''.
\<close>

theorem checkAvailability_total:
  "(\<exists>result. checkAvailability w options = Inr result)
   \<and> (BUSINESS_TIMEZONE_valid w \<and> checkAvailability_try w options = Inl error \<longrightarrow>
        checkAvailability w options
          = Inr \<lparr>isAvailable = False, reasons = [internal_error_reason]\<rparr>)"
proof (intro conjI impI)
  show "\<exists>result. checkAvailability w options = Inr result"
    using checkAvailability_try_not_Nullish [of w options]
    by (auto simp: checkAvailability_def catch_reading_property_def
        split: sum.splits js_thrown.splits)
next
  assume a: "BUSINESS_TIMEZONE_valid w \<and> checkAvailability_try w options = Inl error"
  with checkAvailability_try_not_Nullish [of w options]
  obtain message where "error = Thrown message" by (cases error) auto
  with a show "checkAvailability w options
          = Inr \<lparr>isAvailable = False, reasons = [internal_error_reason]\<rparr>"
    by (simp add: checkAvailability_def catch_reading_property_def)
qed

theorem checkAvailability_total_witness:
  "BUSINESS_TIMEZONE_valid example_world
   \<and> checkAvailability_try example_world example_options
        = Inl (Thrown ''ReferenceError: newEndTimeLocal is not defined'')
   \<and> checkAvailability example_world example_options
        = Inr \<lparr>isAvailable = False, reasons = [internal_error_reason]\<rparr>"
proof -
  have tz: "BUSINESS_TIMEZONE_valid example_world" by (simp add: example_world_def)
  have staff: "getStaffDetails example_world 1 = Inr (Some example_staff)"
    by (simp add: getStaffDetails_def example_world_def)
  have active: "is_active example_staff" by (simp add: example_staff_def)
  have wd: "isoWeekday example_world ''UTC'' 36000000 = 4" by (simp add: example_world_def)
  have thrown: "checkAvailability_try example_world example_options
          = Inl (Thrown ''ReferenceError: newEndTimeLocal is not defined'')"
    by (simp add: checkAvailability_try_def example_options_def staff example_working_interval
        active wd Let_def working_hours_check_throws)
  from checkAvailability_total
    [of example_world example_options "Thrown ''ReferenceError: newEndTimeLocal is not defined''"]
  have "BUSINESS_TIMEZONE_valid example_world
        \<and> checkAvailability_try example_world example_options
             = Inl (Thrown ''ReferenceError: newEndTimeLocal is not defined'')
        \<longrightarrow> checkAvailability example_world example_options
             = Inr \<lparr>isAvailable = False, reasons = [internal_error_reason]\<rparr>"
    by (rule conjunct2)
  with tz thrown show ?thesis by simp
qed

section \<open>Properties of the slot listing\<close>

lemma with_empty_calendar_fields:
  "staff_table (with_empty_calendar w sid) = staff_table w"
  "staff_query_error (with_empty_calendar w sid) = staff_query_error w"
  "working_hours_table (with_empty_calendar w sid) = working_hours_table w"
  "working_hours_query_error (with_empty_calendar w sid) = working_hours_query_error w"
  "bookings_table (with_empty_calendar w sid) = bookings_table w"
  "bookings_query_error (with_empty_calendar w sid) = bookings_query_error w"
  "getGoogleCalendarClient (with_empty_calendar w sid) sid = Inr (Some (Inr []))"
  by (simp_all add: with_empty_calendar_def)

lemma with_empty_calendar_other_client:
  "other \<noteq> sid \<Longrightarrow>
     getGoogleCalendarClient (with_empty_calendar w sid) other = getGoogleCalendarClient w other"
  by (simp add: with_empty_calendar_def)

lemma with_empty_calendar_helpers:
  "getStaffDetails (with_empty_calendar w sid) = getStaffDetails w"
  "getWorkingInterval (with_empty_calendar w sid) = getWorkingInterval w"
  "getDbBusyBlocks (with_empty_calendar w sid) = getDbBusyBlocks w"
  unfolding fun_eq_iff getStaffDetails_def getWorkingInterval_def getDbBusyBlocks_def
    bookings_query_def bookings_query_raises_def with_empty_calendar_fields
  by simp_all

lemma with_empty_calendar_other:
  assumes "other \<noteq> sid"
  shows "getGcalBusyBlocks (with_empty_calendar w sid) other = getGcalBusyBlocks w other"
  unfolding fun_eq_iff getGcalBusyBlocks_def with_empty_calendar_other_client [OF assms]
  by simp

lemma staff_processing_other:
  assumes "es_staff_id staff \<noteq> sid"
  shows "staff_processing (with_empty_calendar w sid) day staff = staff_processing w day staff"
  unfolding staff_processing_def with_empty_calendar_helpers
    with_empty_calendar_other [OF assms]
  by (rule refl)
lemma getGcalBusyBlocks_empty_calendar:
  "getGcalBusyBlocks (with_empty_calendar w sid) sid s e (Some details) = Inr (Some [])"
  by (simp add: getGcalBusyBlocks_def with_empty_calendar_fields Let_def)

lemma staff_processing_unverifiable:
  assumes "fetch_unverifiable w day (es_staff_id staff)"
  shows "staff_processing (with_empty_calendar w (es_staff_id staff)) day staff
           = staff_processing w day staff"
proof -
  from assms obtain details where
    d: "getStaffDetails w (es_staff_id staff) = Inr (Some details)"
    and g: "getGcalBusyBlocks w (es_staff_id staff) (dayStartUTC day) (dayEndUTC day)
              (Some details) = Inr None"
    by (auto simp: fetch_unverifiable_def split: sum.splits option.splits)
  note e = getGcalBusyBlocks_empty_calendar
    [of w "es_staff_id staff" "dayStartUTC day" "dayEndUTC day" details]
  from d g e show ?thesis
    by (simp add: staff_processing_def with_empty_calendar_helpers Let_def
        List.map_filter_simps split: sum.splits option.splits)
qed

lemma no_client_world_slots:
  "staff_slots no_client_world example_day example_staff_row
     = [\<lparr>slot_time = ''09:00'', slot_staffId = 1, slot_staffName = ''Test Staff''\<rparr>,
        \<lparr>slot_time = ''09:15'', slot_staffId = 1, slot_staffName = ''Test Staff''\<rparr>,
        \<lparr>slot_time = ''09:30'', slot_staffId = 1, slot_staffName = ''Test Staff''\<rparr>]"
proof -
  have staff: "getStaffDetails no_client_world 1 = Inr (Some example_staff)"
    by (simp add: getStaffDetails_def no_client_world_def example_world_def)
  have active: "is_active example_staff" by (simp add: example_staff_def)
  have wi: "getWorkingInterval no_client_world 1 4
              = Inr (Some \<lparr>wi_start = ''09:00'', wi_end = ''10:00''\<rparr>)"
    by (simp add: getWorkingInterval_def no_client_world_def example_world_def)
  have db: "getDbBusyBlocks no_client_world 1 0 86399999 None = Inr []"
    by (simp add: getDbBusyBlocks_def bookings_query_def bookings_query_raises_def
        no_client_world_def example_world_def)
  have gcal: "getGcalBusyBlocks no_client_world 1 0 86399999 (Some example_staff) = Inr None"
    by (simp add: getGcalBusyBlocks_def no_client_world_def example_world_def example_staff_def)
  have t9: "timeToMinutes ''09:00'' = 540" and t10: "timeToMinutes ''10:00'' = 600"
    by (simp_all add: timeToMinutes_parts hour_part_def minute_part_def parseInt_def
        is_js_whitespace_def is_digit_def digits_value_def digit_value_def)
  have free: "calculateFreeIntervals [\<lparr>rstart = 540, rend = 600\<rparr>] []
                = [\<lparr>rstart = 540, rend = 600\<rparr>]"
    by (simp add: calculateFreeIntervals_def)
  have slots: "generateSlots [\<lparr>rstart = 540, rend = 600\<rparr>] 30 15 = [540, 555, 570]"
    by (simp add: generateSlots_def slot_starts.simps [of 540] slot_starts.simps [of 555]
        slot_starts.simps [of 570] slot_starts.simps [of 585])
  have f: "formatTime 540 = ''09:00''" "formatTime 555 = ''09:15''" "formatTime 570 = ''09:30''"
    by code_simp+
  show ?thesis
    by (simp add: staff_slots_def staff_processing_def example_staff_row_def example_day_def
        staff active wi db gcal t9 t10 free slots f Let_def List.map_filter_simps)
qed

lemma no_client_world_unverifiable: "fetch_unverifiable no_client_world example_day 1"
  by (simp add: fetch_unverifiable_def getStaffDetails_def getGcalBusyBlocks_def
      no_client_world_def example_world_def example_staff_def)

subsection \<open>Claim C2: a staff member whose calendar cannot be verified\<close>

text \<open>
  C2 as stated asks that a staff member whose external fetch signals failure-to-verify
  contribute no slot candidate. The handler logs a warning and goes on with an empty
  list of calendar blocks (``Let's ignore for now''): staff 1, working 09:00 to 10:00 with
  no stored booking and a calendar for which no client can be obtained, contributes the
  three candidates of a 30-minute service.
\<close>

theorem unverifiable_calendar_slots_counterexample:
  "fetch_unverifiable no_client_world example_day (es_staff_id example_staff_row)
   \<and> staff_slots no_client_world example_day example_staff_row
       = [\<lparr>slot_time = ''09:00'', slot_staffId = 1, slot_staffName = ''Test Staff''\<rparr>,
          \<lparr>slot_time = ''09:15'', slot_staffId = 1, slot_staffName = ''Test Staff''\<rparr>,
          \<lparr>slot_time = ''09:30'', slot_staffId = 1, slot_staffName = ''Test Staff''\<rparr>]"
  using no_client_world_unverifiable no_client_world_slots
  by (simp add: example_staff_row_def)

text \<open>
  C2, amended. A staff member whose external fetch signals failure-to-verify contributes
  the slot candidates computed from the working hours and the stored bookings alone,
  exactly as if the calendar had answered with no busy time; and the candidates of all
  eligible staff members (\<^const>\<open>allSlots\<close>, from which alone the response is built) are
  those of the world in which that calendar answers with no busy time, so the other staff
  members' slots are computed and returned unchanged.
\<close>

theorem unverifiable_calendar_is_ignored:
  "(fetch_unverifiable w day (es_staff_id staff) \<longrightarrow>
      staff_slots w day staff = staff_slots (with_empty_calendar w (es_staff_id staff)) day staff)
   \<and> (fetch_unverifiable w day sid \<longrightarrow>
        allSlots w day eligibleStaff = allSlots (with_empty_calendar w sid) day eligibleStaff)"
proof (intro conjI impI)
  assume "fetch_unverifiable w day (es_staff_id staff)"
  then show "staff_slots w day staff
               = staff_slots (with_empty_calendar w (es_staff_id staff)) day staff"
    by (simp add: staff_slots_def staff_processing_unverifiable)
next
  assume u: "fetch_unverifiable w day sid"
  have "staff_slots (with_empty_calendar w sid) day member = staff_slots w day member"
    for member
  proof (cases "es_staff_id member = sid")
    case True
    with u show ?thesis
      using staff_processing_unverifiable [of w day member] by (simp add: staff_slots_def)
  next
    case False
    then show ?thesis by (simp add: staff_slots_def staff_processing_other)
  qed
  then have "staff_slots (with_empty_calendar w sid) day = staff_slots w day"
    by (rule ext)
  then show "allSlots w day eligibleStaff = allSlots (with_empty_calendar w sid) day eligibleStaff"
    by (simp add: allSlots_def)
qed

theorem unverifiable_calendar_is_ignored_witness:
  "fetch_unverifiable no_client_world example_day (es_staff_id example_staff_row)
   \<and> staff_slots no_client_world example_day example_staff_row
       = staff_slots (with_empty_calendar no_client_world (es_staff_id example_staff_row))
           example_day example_staff_row
   \<and> allSlots no_client_world example_day [example_staff_row]
       = allSlots (with_empty_calendar no_client_world (es_staff_id example_staff_row))
           example_day [example_staff_row]"
proof -
  have u: "fetch_unverifiable no_client_world example_day (es_staff_id example_staff_row)"
    using no_client_world_unverifiable by (simp add: example_staff_row_def)
  note inst = unverifiable_calendar_is_ignored
    [of no_client_world example_day example_staff_row "es_staff_id example_staff_row"
        "[example_staff_row]"]
  from inst u have a: "staff_slots no_client_world example_day example_staff_row
       = staff_slots (with_empty_calendar no_client_world (es_staff_id example_staff_row))
           example_day example_staff_row" by blast
  from inst u have b: "allSlots no_client_world example_day [example_staff_row]
       = allSlots (with_empty_calendar no_client_world (es_staff_id example_staff_row))
           example_day [example_staff_row]" by blast
  from u a b show ?thesis by blast
qed

section \<open>Properties of the booking creation\<close>

lemma error_exit_not_Created: "snd (error_exit acquired steps error) \<noteq> Created n"
  by (simp add: error_exit_def split: js_thrown.splits)

text \<open>
  The handler passes the result of \<^const>\<open>checkAvailability\<close> on, and that result is never
  available: the check ends in the rollback of the refusal or in the error exit.
\<close>

lemma check_and_insert_not_Created:
  "snd (check_and_insert w run details steps) \<noteq> Created n"
proof -
  obtain result where r: "checkAvailability w (booking_options run details) = Inr result"
    using checkAvailability_returns by blast
  then have "\<not> isAvailable result" by (rule checkAvailability_never_available)
  with r show ?thesis
    by (simp add: check_and_insert_def error_exit_not_Created split: option.splits)
qed

lemma POST_never_Created: "snd (POST w run) \<noteq> Created n"
  unfolding POST_def
  by (simp add: error_exit_not_Created check_and_insert_not_Created
      split: option.split sum.split bool.split)

text \<open>
  No request reaches the code that follows an available result. Taken by itself, that
  code does the calendar step inside the transaction: when the staff member is linked to
  a calendar, a client is obtained and every call succeeds, the event is created and its
  id stored before the \<^verbatim>\<open>COMMIT\<close> is sent.
\<close>

lemma calendar_event_step_example:
  "calendar_event_step example_world example_booking_run example_staff
      [InsertBooking ''confirmed''] 42
     = ([InsertBooking ''confirmed'', GetGoogleCalendarClient, EventsInsert,
         UpdateGoogleEventId, Commit, Release], Created 42)"
  by (simp add: calendar_event_step_def commit_and_respond_def example_world_def
      example_booking_run_def example_staff_def)

text \<open>
  What is thrown in the calendar step is not always caught there. The call of
  \<^verbatim>\<open>getGoogleCalendarClient\<close> stands outside the inner \<^verbatim>\<open>try\<close>, so an error it throws
  reaches the outer \<^verbatim>\<open>catch\<close>, which rolls the inserted booking back; and so does a
  rejection of \<^verbatim>\<open>events.insert\<close> with \<^verbatim>\<open>null\<close> or \<^verbatim>\<open>undefined\<close>, since the inner \<^verbatim>\<open>catch\<close>
  reads its \<^verbatim>\<open>message\<close>.
\<close>

lemma calendar_event_step_client_throws:
  assumes "is_google_connected details" and "google_calendar_id details = Some (c # cs)"
    and "getGoogleCalendarClient w (parsedStaffId run) = Inl (Thrown message)"
  shows "calendar_event_step w run details steps newBookingId
           = (steps @ [GetGoogleCalendarClient, Rollback, Release], ErrorResponse)"
  using assms by (simp add: calendar_event_step_def error_exit_def)

lemma calendar_event_step_nullish_rejection:
  assumes "is_google_connected details" and "google_calendar_id details = Some (c # cs)"
    and "getGoogleCalendarClient w (parsedStaffId run) = Inr (Some googleClientForEvent)"
    and "events_insert_error run = Some Nullish"
  shows "calendar_event_step w run details steps newBookingId
           = (steps @ [GetGoogleCalendarClient, EventsInsert, Rollback, Release],
              ErrorResponse)"
  using assms by (simp add: calendar_event_step_def error_exit_def)

text \<open>
  An \<^verbatim>\<open>Error\<close> thrown by \<^verbatim>\<open>events.insert\<close> is caught and the transaction committed. An
  \<^verbatim>\<open>Error\<close> thrown by the \<^verbatim>\<open>UPDATE\<close> of the event id is caught too, but the transaction is
  aborted by then: the \<^verbatim>\<open>COMMIT\<close> that follows rolls the booking back, and the handler
  answers 201.
\<close>

lemma calendar_event_step_insert_fails:
  assumes "is_google_connected details" and "google_calendar_id details = Some (c # cs)"
    and "getGoogleCalendarClient w (parsedStaffId run) = Inr (Some googleClientForEvent)"
    and "events_insert_error run = Some (Thrown message)" and "commit_error run = None"
  shows "calendar_event_step w run details steps newBookingId
           = (steps @ [GetGoogleCalendarClient, EventsInsert, Commit, Release],
              Created newBookingId)"
  using assms by (simp add: calendar_event_step_def commit_and_respond_def)

lemma calendar_event_step_update_fails:
  assumes "is_google_connected details" and "google_calendar_id details = Some (c # cs)"
    and "getGoogleCalendarClient w (parsedStaffId run) = Inr (Some googleClientForEvent)"
    and "events_insert_error run = None"
    and "update_event_id_error run = Some (Thrown message)" and "commit_error run = None"
  shows "calendar_event_step w run details steps newBookingId
           = (steps @ [GetGoogleCalendarClient, EventsInsert, UpdateGoogleEventId,
                       CommitOfAbortedTransaction, Release],
              Created newBookingId)"
  using assms by (simp add: calendar_event_step_def commit_and_respond_def)

subsection \<open>Claim C3: the steps of a successful creation\<close>


end
